theory Spec2Isabelle
  imports Main "HOL-Library.Word" "HOL-Library.Multiset"
begin

unbundle bit_operations_syntax

section \<open>The suffix-array index of the phrase table (SuffixArray.cpp)\<close>

text \<open>
  A shallow embedding of \<^verbatim>\<open>suffixarray/SuffixArray.cpp\<close>: the merge operator registered
  with the key-value engine, the constructor, \<^verbatim>\<open>PutBatch\<close> with its two prefix loops,
  \<^verbatim>\<open>CountOccurrences\<close> and \<^verbatim>\<open>IndexIterator::Next\<close>.

  The file includes \<^verbatim>\<open>SuffixArray.h\<close>, \<^verbatim>\<open>dbkv.h\<close> and the RocksDB and Boost headers, none
  of which is part of the sources. What they declare is taken as a parameter: the key
  codec as the record \<open>dbkv\<close>, the corpus storage as the record \<open>CorporaStorage\<close>, the
  key-value engine as the record \<open>rocksdb\<close>, the file system and the two \<open>open\<close> calls as
  the record \<open>environment\<close>. Every function of the source takes the records it uses as
  its first arguments.
\<close>

subsection \<open>Machine types\<close>

text \<open>
  \<^verbatim>\<open>std::string\<close> and \<^verbatim>\<open>rocksdb::Slice\<close> hold arbitrary bytes. \<^verbatim>\<open>int64_t\<close> is a 64-bit word
  (addition wraps; the signed reading is \<open>sint\<close>), \<^verbatim>\<open>uint8_t\<close> an 8-bit word and
  \<^verbatim>\<open>size_t\<close> a natural number: the loops below never leave the range of a 64-bit
  \<^verbatim>\<open>size_t\<close>, since a start position is below the length of a vector in memory and a
  length is at most 256. Word and domain identifiers (\<^verbatim>\<open>wid_t\<close>, \<^verbatim>\<open>domain_t\<close>) are only
  copied and compared, never computed with, so they are natural numbers. \<^verbatim>\<open>length_t\<close>,
  the type of a start position inside a posting, is declared outside the sources; the
  conversion from \<^verbatim>\<open>size_t\<close> that \<^verbatim>\<open>AddPrefixesToBatch\<close> applies is the field \<open>to_length_t\<close>
  of \<open>dbkv\<close>.
\<close>

type_synonym byte = "8 word"
type_synonym bytes = "byte list"
type_synonym uint8_t = "8 word"
type_synonym int64_t = "64 word"
type_synonym wid_t = nat
type_synonym domain_t = nat
type_synonym length_t = nat
type_synonym KeyType = byte
type_synonym streams_t = "int64_t list"
type_synonym posting = "domain_t \<times> int64_t \<times> length_t"
type_synonym alignment_t = "(length_t \<times> length_t) list"

datatype exn = index_exception string | storage_exception string | invalid_argument string

text \<open>
  What a call of a function that carries a dynamic exception specification comes to: it
  returns, it throws an exception that the specification lists, or an exception that the
  specification does not list tries to leave it. In the last case the exception does not
  reach the caller: \<^verbatim>\<open>std::unexpected()\<close> is called, whose default handler calls
  \<^verbatim>\<open>std::terminate()\<close>, and the process aborts.
\<close>

datatype 'a outcome = Returns 'a | Throws exn | Aborts exn

definition exception_specification :: "(exn \<Rightarrow> bool) \<Rightarrow> exn + 'a \<Rightarrow> 'a outcome" where
  "exception_specification listed r =
     (case r of
        Inr v \<Rightarrow> Returns v
      | Inl ex \<Rightarrow> if listed ex then Throws ex else Aborts ex)"

text \<open>The specification \<^verbatim>\<open>throw(index_exception, storage_exception)\<close>.\<close>

fun index_or_storage_exception :: "exn \<Rightarrow> bool" where
  "index_or_storage_exception (index_exception m) = True"
| "index_or_storage_exception (storage_exception m) = True"
| "index_or_storage_exception (invalid_argument m) = False"

subsection \<open>The key codec (dbkv.h), as a parameter\<close>

record dbkv =
  kStreamsKeyType :: KeyType
  kStorageManifestKeyType :: KeyType
  kSourcePrefixKeyType :: KeyType
  kTargetCountKeyType :: KeyType
  MakeEmptyKey :: "KeyType \<Rightarrow> bytes"
  MakePrefixKey :: "uint8_t \<Rightarrow> domain_t \<Rightarrow> wid_t list \<Rightarrow> nat \<Rightarrow> nat \<Rightarrow> bytes"
  MakeCountKey :: "uint8_t \<Rightarrow> wid_t list \<Rightarrow> nat \<Rightarrow> nat \<Rightarrow> bytes"
  MakeDomainDeletionKey :: "domain_t \<Rightarrow> bytes"
  GetKeyTypeFromKey :: "bytes \<Rightarrow> uint8_t \<Rightarrow> KeyType"
  GetDomainFromKey :: "bytes \<Rightarrow> uint8_t \<Rightarrow> domain_t"
  GetWordsFromKey :: "bytes \<Rightarrow> uint8_t \<Rightarrow> wid_t list"
  SerializeCount :: "int64_t \<Rightarrow> bytes"
  DeserializeCount :: "bytes \<Rightarrow> int64_t"
  SerializeStreams :: "streams_t \<Rightarrow> bytes"
  DeserializeStreams :: "bytes \<Rightarrow> streams_t"
  kPostingSize :: nat
  EncodePosting :: "posting \<Rightarrow> bytes"
  DecodePosting :: "bytes \<Rightarrow> posting"
  to_length_t :: "nat \<Rightarrow> length_t"

text \<open>The two file-level constants of SuffixArray.cpp.\<close>

definition kStreamsKey :: "dbkv \<Rightarrow> bytes" where
  "kStreamsKey kv = MakeEmptyKey kv (kStreamsKeyType kv)"

definition kStorageManifestKey :: "dbkv \<Rightarrow> bytes" where
  "kStorageManifestKey kv = MakeEmptyKey kv (kStorageManifestKeyType kv)"

subsection \<open>Posting lists\<close>

text \<open>
  Modelled from the spec: the class \<^verbatim>\<open>PostingList\<close> is declared outside the sources. The
  spec gives it as the postings of one key in insertion order, "serialized as a flat
  concatenation of fixed-width posting records; deserialization decodes count as
  byte_length / record_width". The width and the coding of one record are the fields
  \<open>kPostingSize\<close>, \<open>EncodePosting\<close> and \<open>DecodePosting\<close> of \<open>dbkv\<close>.
\<close>

type_synonym PostingList = "posting list"

definition PostingList_Append :: "PostingList \<Rightarrow> domain_t \<Rightarrow> int64_t \<Rightarrow> length_t \<Rightarrow> PostingList" where
  "PostingList_Append pl domain location start = pl @ [(domain, location, start)]"

definition PostingList_Serialize :: "dbkv \<Rightarrow> PostingList \<Rightarrow> bytes" where
  "PostingList_Serialize kv pl = concat (map (EncodePosting kv) pl)"

fun records :: "nat \<Rightarrow> nat \<Rightarrow> bytes \<Rightarrow> bytes list" where
  "records w 0 data = []"
| "records w (Suc n) data = take w data # records w n (drop w data)"

definition PostingList_Deserialize :: "dbkv \<Rightarrow> bytes \<Rightarrow> posting list" where
  "PostingList_Deserialize kv data =
     map (DecodePosting kv) (records (kPostingSize kv) (length data div kPostingSize kv) data)"

subsection \<open>MergePositionOperator\<close>

text \<open>
  \<^verbatim>\<open>Merge\<close> returns \<^verbatim>\<open>true\<close> with \<^verbatim>\<open>*new_value\<close> set, or \<^verbatim>\<open>false\<close> with \<^verbatim>\<open>*new_value\<close> untouched.
  It reads \<^verbatim>\<open>key.data_[0]\<close> without looking at the size of the key: on an empty key the
  read is out of range and the model gives \<open>None\<close>. The \<^verbatim>\<open>switch\<close> compares the byte with
  the two enumerators in the order of its \<^verbatim>\<open>case\<close> labels.
\<close>

datatype merge_result = Merged bytes | NotApplicable

definition MergePositionLists :: "bytes option \<Rightarrow> bytes \<Rightarrow> bytes" where
  "MergePositionLists existing_value val =
     (case existing_value of Some e \<Rightarrow> e @ val | None \<Rightarrow> val)"

definition MergeCounts :: "dbkv \<Rightarrow> bytes option \<Rightarrow> bytes \<Rightarrow> bytes" where
  "MergeCounts kv existing_value val =
     (let cnt = DeserializeCount kv val;
          cnt = (case existing_value of
                   Some e \<Rightarrow> cnt + DeserializeCount kv e
                 | None \<Rightarrow> cnt)
      in SerializeCount kv cnt)"

definition Merge :: "dbkv \<Rightarrow> bytes \<Rightarrow> bytes option \<Rightarrow> bytes \<Rightarrow> merge_result option" where
  "Merge kv key existing_value val =
     (case key of
        [] \<Rightarrow> None
      | tag # rest \<Rightarrow>
          Some (if tag = kSourcePrefixKeyType kv
                  then Merged (MergePositionLists existing_value val)
                else if tag = kTargetCountKeyType kv
                  then Merged (MergeCounts kv existing_value val)
                else NotApplicable))"

text \<open>
  The engine reduces the operands of one key by calling \<open>Merge\<close> on two values at a time.
  \<open>merge_pair\<close> is one such call on a left and a right value; \<open>merge_left\<close> and
  \<open>merge_right\<close> are the two groupings of three operands. A fragment is a value whose
  length is a whole number of posting records, and \<open>count_roundtrip\<close> says that the codec
  reads back the count it wrote.
\<close>

definition merged :: "merge_result option \<Rightarrow> bytes option" where
  "merged r = (case r of Some (Merged v) \<Rightarrow> Some v | _ \<Rightarrow> None)"

definition merge_pair :: "dbkv \<Rightarrow> bytes \<Rightarrow> bytes \<Rightarrow> bytes \<Rightarrow> bytes option" where
  "merge_pair kv key left right = merged (Merge kv key (Some left) right)"

definition merge_left :: "dbkv \<Rightarrow> bytes \<Rightarrow> bytes \<Rightarrow> bytes \<Rightarrow> bytes \<Rightarrow> bytes option" where
  "merge_left kv key x y z =
     (case merge_pair kv key x y of None \<Rightarrow> None | Some xy \<Rightarrow> merge_pair kv key xy z)"

definition merge_right :: "dbkv \<Rightarrow> bytes \<Rightarrow> bytes \<Rightarrow> bytes \<Rightarrow> bytes \<Rightarrow> bytes option" where
  "merge_right kv key x y z =
     (case merge_pair kv key y z of None \<Rightarrow> None | Some yz \<Rightarrow> merge_pair kv key x yz)"

definition count_roundtrip :: "dbkv \<Rightarrow> int64_t \<Rightarrow> bool" where
  "count_roundtrip kv c = (DeserializeCount kv (SerializeCount kv c) = c)"

definition fragment :: "dbkv \<Rightarrow> bytes \<Rightarrow> bool" where
  "fragment kv bs = (length bs mod kPostingSize kv = 0)"

subsection \<open>The key-value engine and the corpus storage, as parameters\<close>

text \<open>
  A \<^verbatim>\<open>rocksdb::Iterator\<close> positioned by \<^verbatim>\<open>SeekToFirst\<close> is the finite sequence of records it
  still has to deliver, in key order, closed by a clean end or by a fault of the
  engine: \<^verbatim>\<open>Valid()\<close> holds on a record, \<^verbatim>\<open>status()\<close> is not ok on a fault, and \<^verbatim>\<open>Next()\<close>
  moves to the rest.
\<close>

datatype scan = End | Fault string | Rec bytes bytes scan

datatype Status = OK | NotOK string

datatype write_op = WB_Put bytes bytes | WB_Merge bytes bytes

record 'db rocksdb =
  DB_Get :: "'db \<Rightarrow> bytes \<Rightarrow> bytes option"
  DB_Write :: "'db \<Rightarrow> write_op list \<Rightarrow> Status \<times> 'db"
  DB_NewIterator :: "'db \<Rightarrow> scan"
  GlobalCursor_Seek :: "'db \<Rightarrow> uint8_t \<Rightarrow> wid_t list \<Rightarrow> (bytes \<times> bytes) list"

record 's CorporaStorage =
  Append :: "'s \<Rightarrow> domain_t \<Rightarrow> wid_t list \<Rightarrow> wid_t list \<Rightarrow> alignment_t \<Rightarrow> exn + (int64_t \<times> 's)"
  Flush :: "'s \<Rightarrow> exn + 's"
  GetManifest_Serialize :: "'s \<Rightarrow> bytes"

text \<open>
  \<^verbatim>\<open>db->Get(ReadOptions(), key, &value)\<close>: the source ignores the status, so a key that is
  not found leaves \<^verbatim>\<open>value\<close> empty.
\<close>

definition Get_value :: "'db rocksdb \<Rightarrow> 'db \<Rightarrow> bytes \<Rightarrow> bytes" where
  "Get_value eng d key = (case DB_Get eng d key of Some v \<Rightarrow> v | None \<Rightarrow> [])"

subsection \<open>The state of a SuffixArray\<close>

text \<open>
  Modelled from the spec: the class \<^verbatim>\<open>GarbageCollector\<close> is declared outside the sources.
  The model keeps what the source hands to it: the prefix length and batch size of the
  constructor, and the domains passed to \<^verbatim>\<open>MarkForDeletion\<close>. Its timeout is a \<^verbatim>\<open>double\<close>
  that the source only passes on; it is left out.
\<close>

record GarbageCollector =
  gc_prefixLength :: uint8_t
  gc_batchSize :: nat
  marked :: "domain_t list"

definition MarkForDeletion :: "GarbageCollector \<Rightarrow> domain_t list \<Rightarrow> GarbageCollector" where
  "MarkForDeletion gc domains = gc\<lparr>marked := marked gc @ domains\<rparr>"

record ('db, 's) SuffixArray =
  openForBulkLoad :: bool
  prefixLength :: uint8_t
  db :: 'db
  streams :: streams_t
  storage :: 's
  garbageCollector :: GarbageCollector

subsection \<open>CountOccurrences\<close>

text \<open>
  Modelled from the spec: the class \<^verbatim>\<open>PrefixCursor\<close> is declared outside the sources. The
  spec gives the global cursor as a range scan over the source-prefix records that
  match the phrase in every domain, and \<^verbatim>\<open>CountValue()\<close> as the length of the posting
  list of the record under the cursor. \<open>GlobalCursor_Seek\<close> of the engine is the
  sequence of records the cursor visits.

  The function returns the index beside the count: the source calls only \<^verbatim>\<open>Get\<close> and the
  cursor, and writes to no member.
\<close>

definition CountValue :: "dbkv \<Rightarrow> bytes \<times> bytes \<Rightarrow> int64_t" where
  "CountValue kv r = of_nat (length (PostingList_Deserialize kv (snd r)))"

fun cursor_loop :: "dbkv \<Rightarrow> (bytes \<times> bytes) list \<Rightarrow> int64_t \<Rightarrow> int64_t" where
  "cursor_loop kv [] cnt = cnt"
| "cursor_loop kv (r # rs) cnt = cursor_loop kv rs (cnt + CountValue kv r)"

definition max_int64 :: "int64_t \<Rightarrow> int64_t \<Rightarrow> int64_t" where
  "max_int64 a b = (if sint a < sint b then b else a)"

definition CountOccurrences ::
  "dbkv \<Rightarrow> 'db rocksdb \<Rightarrow> ('db, 's) SuffixArray \<Rightarrow> bool \<Rightarrow> wid_t list \<Rightarrow> nat \<times> ('db, 's) SuffixArray" where
  "CountOccurrences kv eng sa isSource phrase =
     (if length phrase > unat (prefixLength sa) then (1, sa)
      else
        let cnt =
              (if isSource
                 then cursor_loop kv (GlobalCursor_Seek eng (db sa) (prefixLength sa) phrase) 0
               else
                 DeserializeCount kv
                   (Get_value eng (db sa)
                      (MakeCountKey kv (prefixLength sa) phrase 0 (length phrase))))
        in (unat (max_int64 cnt 1), sa))"

subsection \<open>The two prefix loops of PutBatch\<close>

text \<open>
  \<^verbatim>\<open>unordered_map<string, V>\<close> as an association list with one pair per key.
  \<open>unordered_map_at key d f\<close> is \<^verbatim>\<open>operator[]\<close> followed by an update of the mapped
  value: a key that is absent is inserted with the value-initialised \<open>d\<close> first. The
  order in which the source later iterates over the map is unspecified in C++; the
  model iterates in the order of first insertion.
\<close>

fun unordered_map_at :: "'k \<Rightarrow> 'v \<Rightarrow> ('v \<Rightarrow> 'v) \<Rightarrow> ('k \<times> 'v) list \<Rightarrow> ('k \<times> 'v) list" where
  "unordered_map_at key d f [] = [(key, f d)]"
| "unordered_map_at key d f ((k, v) # m) =
     (if k = key then (k, f v) # m else (k, v) # unordered_map_at key d f m)"

text \<open>
  The inner loop \<^verbatim>\<open>for (size_t length = 1; length <= prefixLength; ++length)\<close> with its
  \<^verbatim>\<open>break\<close>, started at \<open>len\<close>; then the outer loop over the start positions, started at
  \<open>start\<close>.
\<close>

function AddPrefixesToBatch_lengths ::
  "dbkv \<Rightarrow> uint8_t \<Rightarrow> domain_t \<Rightarrow> wid_t list \<Rightarrow> int64_t \<Rightarrow> nat \<Rightarrow> nat \<Rightarrow>
     (bytes \<times> PostingList) list \<Rightarrow> (bytes \<times> PostingList) list" where
  "AddPrefixesToBatch_lengths kv L domain sentence location start len outBatch =
     (if len \<le> unat L then
        (if start + len > length sentence then outBatch
         else AddPrefixesToBatch_lengths kv L domain sentence location start (Suc len)
                (unordered_map_at (MakePrefixKey kv L domain sentence start len) []
                   (\<lambda>pl. PostingList_Append pl domain location (to_length_t kv start))
                   outBatch))
      else outBatch)"
  by pat_completeness auto
termination
  by (relation "measure (\<lambda>(kv, L, domain, sentence, location, start, len, outBatch).
        Suc (unat L) - len)") auto

function AddPrefixesToBatch_starts ::
  "dbkv \<Rightarrow> uint8_t \<Rightarrow> domain_t \<Rightarrow> wid_t list \<Rightarrow> int64_t \<Rightarrow> nat \<Rightarrow>
     (bytes \<times> PostingList) list \<Rightarrow> (bytes \<times> PostingList) list" where
  "AddPrefixesToBatch_starts kv L domain sentence location start outBatch =
     (if start < length sentence then
        AddPrefixesToBatch_starts kv L domain sentence location (Suc start)
          (AddPrefixesToBatch_lengths kv L domain sentence location start 1 outBatch)
      else outBatch)"
  by pat_completeness auto
termination
  by (relation "measure (\<lambda>(kv, L, domain, sentence, location, start, outBatch).
        length sentence - start)") auto

declare AddPrefixesToBatch_lengths.simps [simp del]
declare AddPrefixesToBatch_starts.simps [simp del]

definition AddPrefixesToBatch ::
  "dbkv \<Rightarrow> uint8_t \<Rightarrow> domain_t \<Rightarrow> wid_t list \<Rightarrow> int64_t \<Rightarrow>
     (bytes \<times> PostingList) list \<Rightarrow> (bytes \<times> PostingList) list" where
  "AddPrefixesToBatch kv L domain sentence location outBatch =
     AddPrefixesToBatch_starts kv L domain sentence location 0 outBatch"

function AddTargetCountsToBatch_lengths ::
  "dbkv \<Rightarrow> uint8_t \<Rightarrow> wid_t list \<Rightarrow> nat \<Rightarrow> nat \<Rightarrow>
     (bytes \<times> int64_t) list \<Rightarrow> (bytes \<times> int64_t) list" where
  "AddTargetCountsToBatch_lengths kv L sentence start len outBatch =
     (if len \<le> unat L then
        (if start + len > length sentence then outBatch
         else AddTargetCountsToBatch_lengths kv L sentence start (Suc len)
                (unordered_map_at (MakeCountKey kv L sentence start len) 0 (\<lambda>c. c + 1)
                   outBatch))
      else outBatch)"
  by pat_completeness auto
termination
  by (relation "measure (\<lambda>(kv, L, sentence, start, len, outBatch). Suc (unat L) - len)") auto

function AddTargetCountsToBatch_starts ::
  "dbkv \<Rightarrow> uint8_t \<Rightarrow> wid_t list \<Rightarrow> nat \<Rightarrow>
     (bytes \<times> int64_t) list \<Rightarrow> (bytes \<times> int64_t) list" where
  "AddTargetCountsToBatch_starts kv L sentence start outBatch =
     (if start < length sentence then
        AddTargetCountsToBatch_starts kv L sentence (Suc start)
          (AddTargetCountsToBatch_lengths kv L sentence start 1 outBatch)
      else outBatch)"
  by pat_completeness auto
termination
  by (relation "measure (\<lambda>(kv, L, sentence, start, outBatch). length sentence - start)") auto

declare AddTargetCountsToBatch_lengths.simps [simp del]
declare AddTargetCountsToBatch_starts.simps [simp del]

definition AddTargetCountsToBatch ::
  "dbkv \<Rightarrow> uint8_t \<Rightarrow> wid_t list \<Rightarrow> (bytes \<times> int64_t) list \<Rightarrow> (bytes \<times> int64_t) list" where
  "AddTargetCountsToBatch kv L sentence outBatch =
     AddTargetCountsToBatch_starts kv L sentence 0 outBatch"

subsection \<open>PutBatch\<close>

text \<open>
  Modelled from the spec: the class \<^verbatim>\<open>UpdateBatch\<close> is declared outside the sources. The
  source reads its members \<^verbatim>\<open>data\<close> (entries with \<^verbatim>\<open>domain\<close>, \<^verbatim>\<open>source\<close>, \<^verbatim>\<open>target\<close> and
  \<^verbatim>\<open>alignment\<close>) and \<^verbatim>\<open>deletions\<close>, and calls \<^verbatim>\<open>GetStreams()\<close>, which the spec gives as "the
  resulting new Stream State".
\<close>

record entry =
  domain :: domain_t
  source :: "wid_t list"
  target :: "wid_t list"
  alignment :: alignment_t

record UpdateBatch =
  data :: "entry list"
  deletions :: "domain_t list"
  GetStreams :: streams_t

text \<open>The first loop of \<^verbatim>\<open>PutBatch\<close>, over \<^verbatim>\<open>batch.data\<close>; \<^verbatim>\<open>Append\<close> may throw.\<close>

fun PutBatch_entries ::
  "dbkv \<Rightarrow> 's CorporaStorage \<Rightarrow> uint8_t \<Rightarrow> entry list \<Rightarrow>
     's \<times> (bytes \<times> PostingList) list \<times> (bytes \<times> int64_t) list \<Rightarrow>
     exn + ('s \<times> (bytes \<times> PostingList) list \<times> (bytes \<times> int64_t) list)" where
  "PutBatch_entries kv cs L [] acc = Inr acc"
| "PutBatch_entries kv cs L (e # es) (st, sourcePrefixes, targetCounts) =
     (case Append cs st (domain e) (source e) (target e) (alignment e) of
        Inl ex \<Rightarrow> Inl ex
      | Inr (offset, st') \<Rightarrow>
          PutBatch_entries kv cs L es
            (st',
             AddPrefixesToBatch kv L (domain e) (source e) offset sourcePrefixes,
             AddTargetCountsToBatch kv L (target e) targetCounts))"

text \<open>
  The write batch of \<^verbatim>\<open>PutBatch\<close>, as it stands when \<^verbatim>\<open>db->Write\<close> is called, with the
  storage after the appends and the flush. \<^verbatim>\<open>PutBatch\<close> itself then commits: a status that is
  not ok raises an index error, and only after a commit that succeeded are the stream
  state replaced and the deletions handed to the garbage collector. A call that throws
  gives the exception of the body alone; what the storage holds by then is not part of
  the result. \<^verbatim>\<open>PutBatch\<close> is declared \<^verbatim>\<open>throw(index_exception, storage_exception)\<close>, which
  lists the index error that its own \<^verbatim>\<open>throw\<close> statement raises.
\<close>

definition PutBatch_writeBatch ::
  "dbkv \<Rightarrow> 's CorporaStorage \<Rightarrow> ('db, 's) SuffixArray \<Rightarrow> UpdateBatch \<Rightarrow>
     exn + (write_op list \<times> 's)" where
  "PutBatch_writeBatch kv cs sa batch =
     (case PutBatch_entries kv cs (prefixLength sa) (data batch) (storage sa, [], []) of
        Inl ex \<Rightarrow> Inl ex
      | Inr (st, sourcePrefixes, targetCounts) \<Rightarrow>
          let writeBatch =
                map (\<lambda>prefix. WB_Merge (fst prefix) (PostingList_Serialize kv (snd prefix)))
                  sourcePrefixes
                @ map (\<lambda>cnt. WB_Merge (fst cnt) (SerializeCount kv (snd cnt))) targetCounts
                @ map (\<lambda>d. WB_Put (MakeDomainDeletionKey kv d) []) (deletions batch)
                @ [WB_Put (kStreamsKey kv) (SerializeStreams kv (streams sa))]
          in if \<not> openForBulkLoad sa then
               (case Flush cs st of
                  Inl ex \<Rightarrow> Inl ex
                | Inr st' \<Rightarrow>
                    Inr (writeBatch @ [WB_Put (kStorageManifestKey kv) (GetManifest_Serialize cs st')],
                         st'))
             else Inr (writeBatch, st))"

definition PutBatch ::
  "dbkv \<Rightarrow> 's CorporaStorage \<Rightarrow> 'db rocksdb \<Rightarrow> ('db, 's) SuffixArray \<Rightarrow> UpdateBatch \<Rightarrow>
     exn + ('db, 's) SuffixArray" where
  "PutBatch kv cs eng sa batch =
     (case PutBatch_writeBatch kv cs sa batch of
        Inl ex \<Rightarrow> Inl ex
      | Inr (writeBatch, st) \<Rightarrow>
          (case DB_Write eng (db sa) writeBatch of
             (NotOK msg, d) \<Rightarrow> Inl (index_exception (''Unable to write to index: '' @ msg))
           | (OK, d) \<Rightarrow>
               Inr (sa\<lparr>db := d, storage := st, streams := GetStreams batch,
                        garbageCollector := MarkForDeletion (garbageCollector sa) (deletions batch)\<rparr>)))"

subsection \<open>What a sentence and a batch contribute to a key\<close>

text \<open>
  The vocabulary of the properties of \<^verbatim>\<open>PutBatch\<close>. \<open>prefix_positions L n\<close> lists the pairs
  of a start position and a prefix length of a sentence of \<open>n\<close> words, by start and then
  by length. \<open>source_occurrences\<close> and \<open>target_occurrences\<close> give, for each pair, the key
  and the posting (the key) that the source (the target) sentence of an entry yields.
  \<open>Append_all\<close> is the sequence of offsets that the storage returns for the entries of a
  batch, and \<open>batch_source_occurrences\<close>, \<open>batch_target_occurrences\<close> collect the
  occurrences of all entries. \<open>value_at d m key\<close> reads a map like \<^verbatim>\<open>operator[]\<close> would, and
  \<open>merges\<close> lists the \<^verbatim>\<open>Merge\<close> operations of a write batch.
\<close>

definition prefix_positions :: "nat \<Rightarrow> nat \<Rightarrow> (nat \<times> nat) list" where
  "prefix_positions L n =
     concat (map (\<lambda>start. map (Pair start) [1 ..< Suc (min L (n - start))]) [0 ..< n])"

definition value_at :: "'v \<Rightarrow> ('k \<times> 'v) list \<Rightarrow> 'k \<Rightarrow> 'v" where
  "value_at d m key = (case map_of m key of None \<Rightarrow> d | Some v \<Rightarrow> v)"

definition source_occurrences ::
  "dbkv \<Rightarrow> uint8_t \<Rightarrow> domain_t \<Rightarrow> wid_t list \<Rightarrow> int64_t \<Rightarrow> (bytes \<times> posting) list" where
  "source_occurrences kv L d sentence location =
     map (\<lambda>p. (MakePrefixKey kv L d sentence (fst p) (snd p),
               (d, location, to_length_t kv (fst p))))
       (prefix_positions (unat L) (length sentence))"

definition target_occurrences :: "dbkv \<Rightarrow> uint8_t \<Rightarrow> wid_t list \<Rightarrow> bytes list" where
  "target_occurrences kv L sentence =
     map (\<lambda>p. MakeCountKey kv L sentence (fst p) (snd p))
       (prefix_positions (unat L) (length sentence))"

definition postings_under :: "bytes \<Rightarrow> (bytes \<times> posting) list \<Rightarrow> posting list" where
  "postings_under key occ = map snd (filter (\<lambda>kp. fst kp = key) occ)"

definition count_under :: "bytes \<Rightarrow> bytes list \<Rightarrow> nat" where
  "count_under key occ = length (filter (\<lambda>k. k = key) occ)"

definition add_posting :: "(bytes \<times> PostingList) list \<Rightarrow> bytes \<times> posting \<Rightarrow> (bytes \<times> PostingList) list" where
  "add_posting m kp = unordered_map_at (fst kp) [] (\<lambda>pl. pl @ [snd kp]) m"

definition add_count :: "(bytes \<times> int64_t) list \<Rightarrow> bytes \<Rightarrow> (bytes \<times> int64_t) list" where
  "add_count m key = unordered_map_at key 0 (\<lambda>c. c + 1) m"

fun Append_all :: "'s CorporaStorage \<Rightarrow> 's \<Rightarrow> entry list \<Rightarrow> exn + (int64_t list \<times> 's)" where
  "Append_all cs st [] = Inr ([], st)"
| "Append_all cs st (e # es) =
     (case Append cs st (domain e) (source e) (target e) (alignment e) of
        Inl ex \<Rightarrow> Inl ex
      | Inr (offset, st') \<Rightarrow>
          (case Append_all cs st' es of
             Inl ex \<Rightarrow> Inl ex
           | Inr (offsets, st'') \<Rightarrow> Inr (offset # offsets, st'')))"

definition batch_source_occurrences ::
  "dbkv \<Rightarrow> uint8_t \<Rightarrow> entry list \<Rightarrow> int64_t list \<Rightarrow> (bytes \<times> posting) list" where
  "batch_source_occurrences kv L es offsets =
     concat (map (\<lambda>eo. source_occurrences kv L (domain (fst eo)) (source (fst eo)) (snd eo))
               (zip es offsets))"

definition batch_target_occurrences :: "dbkv \<Rightarrow> uint8_t \<Rightarrow> entry list \<Rightarrow> bytes list" where
  "batch_target_occurrences kv L es = concat (map (\<lambda>e. target_occurrences kv L (target e)) es)"

fun merges :: "write_op list \<Rightarrow> (bytes \<times> bytes) list" where
  "merges [] = []"
| "merges (WB_Merge k v # ops) = (k, v) # merges ops"
| "merges (WB_Put k v # ops) = merges ops"

text \<open>The values that a write batch puts under a key, in the order of the batch.\<close>

fun puts_under :: "bytes \<Rightarrow> write_op list \<Rightarrow> bytes list" where
  "puts_under key [] = []"
| "puts_under key (WB_Put k v # ops) = (if k = key then v # puts_under key ops else puts_under key ops)"
| "puts_under key (WB_Merge k v # ops) = puts_under key ops"

text \<open>The stream state of the index that a call leaves, when it returns.\<close>

definition streams_after :: "exn + ('db, 's) SuffixArray \<Rightarrow> streams_t option" where
  "streams_after r = (case r of Inl ex \<Rightarrow> None | Inr sa \<Rightarrow> Some (streams sa))"

subsection \<open>IndexIterator\<close>

record IndexEntry =
  is_source :: bool
  entry_domain :: domain_t
  words :: "wid_t list"
  positions :: "posting list"
  entry_count :: int64_t

definition NewIterator :: "'db rocksdb \<Rightarrow> ('db, 's) SuffixArray \<Rightarrow> scan" where
  "NewIterator eng sa = DB_NewIterator eng (db sa)"

text \<open>
  \<^verbatim>\<open>IndexIterator::Next\<close>. The result is what the call returns or throws, with the
  iterator and \<^verbatim>\<open>*outEntry\<close> as the call leaves them. \<^verbatim>\<open>it->status()\<close> is read only after
  \<^verbatim>\<open>it->Next()\<close>, inside the loop.
\<close>

fun Next :: "dbkv \<Rightarrow> uint8_t \<Rightarrow> scan \<Rightarrow> IndexEntry \<Rightarrow> (exn + bool) \<times> scan \<times> IndexEntry" where
  "Next kv L End outEntry = (Inr False, End, outEntry)"
| "Next kv L (Fault msg) outEntry = (Inr False, Fault msg, outEntry)"
| "Next kv L (Rec key val rest) outEntry =
     (let type = GetKeyTypeFromKey kv key L;
          (loop, outEntry') =
            (if type = kSourcePrefixKeyType kv then
               (False,
                outEntry\<lparr>is_source := True,
                         entry_domain := GetDomainFromKey kv key L,
                         words := GetWordsFromKey kv key L,
                         positions := PostingList_Deserialize kv val,
                         entry_count := of_nat (length (PostingList_Deserialize kv val))\<rparr>)
             else if type = kTargetCountKeyType kv then
               (False,
                outEntry\<lparr>is_source := False,
                         entry_domain := 0,
                         positions := [],
                         words := GetWordsFromKey kv key L,
                         entry_count := DeserializeCount kv val\<rparr>)
             else (True, outEntry))
      in case rest of
           Fault msg \<Rightarrow> (Inl (index_exception msg), rest, outEntry')
         | _ \<Rightarrow> if \<not> loop then (Inr True, rest, outEntry') else Next kv L rest outEntry')"

text \<open>\<open>scan_suffix s t\<close>: the scan \<open>s\<close> is what is left of \<open>t\<close> after some calls of \<^verbatim>\<open>it->Next()\<close>.\<close>

fun scan_suffix :: "scan \<Rightarrow> scan \<Rightarrow> bool" where
  "scan_suffix s End = (s = End)"
| "scan_suffix s (Fault msg) = (s = Fault msg)"
| "scan_suffix s (Rec key val rest) = (s = Rec key val rest \<or> scan_suffix s rest)"

subsection \<open>The constructor\<close>

text \<open>
  The fields of \<^verbatim>\<open>rocksdb::Options\<close> that the constructor sets; \<open>None\<close> is the default of
  the engine. \<^verbatim>\<open>PrepareForBulkLoad()\<close> and \<^verbatim>\<open>IncreaseParallelism(n)\<close> are recorded as calls.
\<close>

record Options =
  create_if_missing :: bool
  merge_operator :: string
  max_open_files :: int
  compaction_style :: string
  PrepareForBulkLoad :: bool
  IncreaseParallelism :: "nat option"
  level0_file_num_compaction_trigger :: "int option"
  level0_slowdown_writes_trigger :: "int option"
  level0_stop_writes_trigger :: "int option"
  num_levels :: "int option"
  write_buffer_size :: "int option"
  max_write_buffer_number :: "int option"
  target_file_size_base :: "int option"
  max_bytes_for_level_base :: "int option"
  max_bytes_for_level_multiplier :: "int option"

definition make_options :: "bool \<Rightarrow> nat \<Rightarrow> Options" where
  "make_options prepareForBulkLoad cpus =
     (let options = \<lparr>create_if_missing = True,
                      merge_operator = ''MergePositionOperator'',
                      max_open_files = - 1,
                      compaction_style = ''kCompactionStyleLevel'',
                      PrepareForBulkLoad = False,
                      IncreaseParallelism = None,
                      level0_file_num_compaction_trigger = None,
                      level0_slowdown_writes_trigger = None,
                      level0_stop_writes_trigger = None,
                      num_levels = None,
                      write_buffer_size = None,
                      max_write_buffer_number = None,
                      target_file_size_base = None,
                      max_bytes_for_level_base = None,
                      max_bytes_for_level_multiplier = None\<rparr>
      in if prepareForBulkLoad then options\<lparr>PrepareForBulkLoad := True\<rparr>
         else options\<lparr>IncreaseParallelism :=
                          (if cpus > 1 then Some (if cpus > 4 then 4 else 2) else None),
                        level0_file_num_compaction_trigger := Some 8,
                        level0_slowdown_writes_trigger := Some 17,
                        level0_stop_writes_trigger := Some 24,
                        num_levels := Some 4,
                        write_buffer_size := Some (64 * 1024 * 1024),
                        max_write_buffer_number := Some 3,
                        target_file_size_base := Some (64 * 1024 * 1024),
                        max_bytes_for_level_base := Some (512 * 1024 * 1024),
                        max_bytes_for_level_multiplier := Some 8\<rparr>)"

text \<open>
  The file system (\<^verbatim>\<open>boost::filesystem\<close>), the number of processors, \<^verbatim>\<open>DB::Open\<close> (\<open>Inl\<close> is
  the text of a status that is not ok) and the constructor of the corpus storage, applied
  to the raw manifest read from the index (it may throw).
\<close>

record ('db, 's) environment =
  is_directory :: "string \<Rightarrow> bool"
  path_append :: "string \<Rightarrow> string \<Rightarrow> string"
  absolute :: "string \<Rightarrow> string"
  hardware_concurrency :: nat
  DB_Open :: "Options \<Rightarrow> string \<Rightarrow> string + 'db"
  CorporaStorage_new :: "string \<Rightarrow> bytes \<Rightarrow> exn + 's"

text \<open>
  The body of \<^verbatim>\<open>SuffixArray::SuffixArray\<close>: the exception that a \<^verbatim>\<open>throw\<close> statement or a
  callee raises, or the object built.
\<close>

definition SuffixArray_body ::
  "dbkv \<Rightarrow> 'db rocksdb \<Rightarrow> ('db, 's) environment \<Rightarrow> string \<Rightarrow> uint8_t \<Rightarrow> nat \<Rightarrow> bool \<Rightarrow>
     exn + ('db, 's) SuffixArray" where
  "SuffixArray_body kv eng env modelPath L gcBatchSize prepareForBulkLoad =
     (if \<not> is_directory env modelPath then
        Inl (invalid_argument (''Invalid model path: '' @ modelPath))
      else
        let storageFolder = absolute env (path_append env modelPath ''storage'');
            indexPath = absolute env (path_append env modelPath ''index'');
            options = make_options prepareForBulkLoad (hardware_concurrency env)
        in case DB_Open env options indexPath of
             Inl status \<Rightarrow> Inl (index_exception status)
           | Inr d \<Rightarrow>
               let raw_streams = Get_value eng d (kStreamsKey kv);
                   raw_manifest = Get_value eng d (kStorageManifestKey kv)
               in case CorporaStorage_new env storageFolder raw_manifest of
                    Inl ex \<Rightarrow> Inl ex
                  | Inr st \<Rightarrow>
                      Inr \<lparr>openForBulkLoad = prepareForBulkLoad,
                           prefixLength = L,
                           db = d,
                           streams = DeserializeStreams kv raw_streams,
                           storage = st,
                           garbageCollector =
                             \<lparr>gc_prefixLength = L, gc_batchSize = gcBatchSize,
                              marked = []\<rparr>\<rparr>)"

text \<open>
  The constructor as a caller meets it. It is declared
  \<^verbatim>\<open>throw(index_exception, storage_exception)\<close>, so an exception of the body passes
  through this specification.
\<close>

definition SuffixArray_new ::
  "dbkv \<Rightarrow> 'db rocksdb \<Rightarrow> ('db, 's) environment \<Rightarrow> string \<Rightarrow> uint8_t \<Rightarrow> nat \<Rightarrow> bool \<Rightarrow>
     ('db, 's) SuffixArray outcome" where
  "SuffixArray_new kv eng env modelPath L gcBatchSize prepareForBulkLoad =
     exception_specification index_or_storage_exception
       (SuffixArray_body kv eng env modelPath L gcBatchSize prepareForBulkLoad)"

section \<open>One instance of the parameters\<close>

text \<open>
  The properties below hold for every codec, storage, engine and environment. This
  section fixes one of each, small enough to compute with, on which the properties are
  then instantiated: keys are a tag byte followed by one byte per identifier, counts and
  offsets are eight bytes in big-endian order, a posting takes ten bytes, the storage is
  the number of words appended so far, and the engine keeps its records in a list
  sorted by key and applies a merge with \<open>Merge\<close>.
\<close>

definition be64 :: "int64_t \<Rightarrow> bytes" where
  "be64 c = map (\<lambda>i. ucast (drop_bit (8 * i) c)) [7, 6, 5, 4, 3, 2, 1, 0]"

fun un64_loop :: "bytes \<Rightarrow> int64_t \<Rightarrow> int64_t" where
  "un64_loop [] acc = acc"
| "un64_loop (b # bs) acc = un64_loop bs (push_bit 8 acc OR ucast b)"

definition un64 :: "bytes \<Rightarrow> int64_t" where
  "un64 bs = (if length bs = 8 then un64_loop bs 0 else 0)"

definition sample_dbkv :: dbkv where
  "sample_dbkv =
     \<lparr>kStreamsKeyType = 0,
      kStorageManifestKeyType = 1,
      kSourcePrefixKeyType = 2,
      kTargetCountKeyType = 3,
      MakeEmptyKey = (\<lambda>t. [t]),
      MakePrefixKey = (\<lambda>L d s start len. 2 # of_nat d # map of_nat (take len (drop start s))),
      MakeCountKey = (\<lambda>L s start len. 3 # map of_nat (take len (drop start s))),
      MakeDomainDeletionKey = (\<lambda>d. [4, of_nat d]),
      GetKeyTypeFromKey = (\<lambda>k L. case k of [] \<Rightarrow> 255 | t # r \<Rightarrow> t),
      GetDomainFromKey = (\<lambda>k L. case k of t # d # r \<Rightarrow> unat d | _ \<Rightarrow> 0),
      GetWordsFromKey =
        (\<lambda>k L. case k of [] \<Rightarrow> [] | t # r \<Rightarrow> map unat (if t = 2 then drop 1 r else r)),
      SerializeCount = be64,
      DeserializeCount = un64,
      SerializeStreams = (\<lambda>ss. concat (map be64 ss)),
      DeserializeStreams = (\<lambda>bs. map un64 (records 8 (length bs div 8) bs)),
      kPostingSize = 10,
      EncodePosting = (\<lambda>(d, loc, st). of_nat d # be64 loc @ [of_nat st]),
      DecodePosting = (\<lambda>bs. (unat (hd bs), un64 (take 8 (drop 1 bs)), unat (last bs))),
      to_length_t = (\<lambda>n. n mod 65536)\<rparr>"

definition sample_storage :: "nat CorporaStorage" where
  "sample_storage =
     \<lparr>Append = (\<lambda>st d s t a. Inr (of_nat st, st + length s + length t)),
      Flush = (\<lambda>st. Inr st),
      GetManifest_Serialize = (\<lambda>st. be64 (of_nat st))\<rparr>"

fun bytes_less :: "bytes \<Rightarrow> bytes \<Rightarrow> bool" where
  "bytes_less [] [] = False"
| "bytes_less [] (y # ys) = True"
| "bytes_less (x # xs) [] = False"
| "bytes_less (x # xs) (y # ys) = (x < y \<or> (x = y \<and> bytes_less xs ys))"

fun store_put :: "bytes \<Rightarrow> bytes \<Rightarrow> (bytes \<times> bytes) list \<Rightarrow> (bytes \<times> bytes) list" where
  "store_put key val [] = [(key, val)]"
| "store_put key val ((k, v) # d) =
     (if k = key then (key, val) # d
      else if bytes_less key k then (key, val) # (k, v) # d
      else (k, v) # store_put key val d)"

fun store_apply :: "write_op \<Rightarrow> (bytes \<times> bytes) list \<Rightarrow> (bytes \<times> bytes) list" where
  "store_apply (WB_Put key val) d = store_put key val d"
| "store_apply (WB_Merge key val) d =
     (case Merge sample_dbkv key (map_of d key) val of
        Some (Merged new_value) \<Rightarrow> store_put key new_value d
      | _ \<Rightarrow> d)"

definition sample_engine :: "(bytes \<times> bytes) list rocksdb" where
  "sample_engine =
     \<lparr>DB_Get = map_of,
      DB_Write = (\<lambda>d writeBatch. (OK, foldl (\<lambda>d' op. store_apply op d') d writeBatch)),
      DB_NewIterator = (\<lambda>d. foldr (\<lambda>r s. Rec (fst r) (snd r) s) d End),
      GlobalCursor_Seek =
        (\<lambda>d L phrase. filter (\<lambda>r. take 1 (fst r) = [2] \<and> drop 2 (fst r) = map of_nat phrase) d)\<rparr>"

definition sample_environment :: "((bytes \<times> bytes) list, nat) environment" where
  "sample_environment =
     \<lparr>is_directory = (\<lambda>p. p = ''/model'' \<or> p = ''/locked''),
      path_append = (\<lambda>p q. p @ ''/'' @ q),
      absolute = (\<lambda>p. p),
      hardware_concurrency = 4,
      DB_Open = (\<lambda>options p. if p = ''/locked/index'' then Inl ''IO error: lock'' else Inr []),
      CorporaStorage_new = (\<lambda>p raw_manifest. Inr 0)\<rparr>"

definition sample_index :: "((bytes \<times> bytes) list, nat) SuffixArray" where
  "sample_index =
     \<lparr>openForBulkLoad = False,
      prefixLength = 3,
      db = [],
      streams = [0],
      storage = 0,
      garbageCollector = \<lparr>gc_prefixLength = 3, gc_batchSize = 100, marked = []\<rparr>\<rparr>"

definition sample_entry :: entry where
  "sample_entry = \<lparr>domain = 1, source = [5, 9, 12], target = [20, 21], alignment = [(0, 0)]\<rparr>"

definition sample_writeBatch :: "write_op list" where
  "sample_writeBatch =
     [WB_Merge [2, 1, 5] [1, 0, 0, 0, 0, 0, 0, 0, 0, 0],
      WB_Merge [2, 1, 5, 9] [1, 0, 0, 0, 0, 0, 0, 0, 0, 0],
      WB_Merge [2, 1, 5, 9, 12] [1, 0, 0, 0, 0, 0, 0, 0, 0, 0],
      WB_Merge [2, 1, 9] [1, 0, 0, 0, 0, 0, 0, 0, 0, 1],
      WB_Merge [2, 1, 9, 12] [1, 0, 0, 0, 0, 0, 0, 0, 0, 1],
      WB_Merge [2, 1, 12] [1, 0, 0, 0, 0, 0, 0, 0, 0, 2],
      WB_Merge [3, 20] [0, 0, 0, 0, 0, 0, 0, 1],
      WB_Merge [3, 20, 21] [0, 0, 0, 0, 0, 0, 0, 1],
      WB_Merge [3, 21] [0, 0, 0, 0, 0, 0, 0, 1],
      WB_Put [0] [0, 0, 0, 0, 0, 0, 0, 0],
      WB_Put [1] [0, 0, 0, 0, 0, 0, 0, 5]]"

definition sample_batch :: UpdateBatch where
  "sample_batch =
     \<lparr>data = [sample_entry],
      deletions = [],
      GetStreams = [7]\<rparr>"

section \<open>Properties\<close>

subsection \<open>The instance, evaluated\<close>

lemma sample_dbkv_sel:
  "kStreamsKeyType sample_dbkv = 0"
  "kStorageManifestKeyType sample_dbkv = 1"
  "kSourcePrefixKeyType sample_dbkv = 2"
  "kTargetCountKeyType sample_dbkv = 3"
  "MakeEmptyKey sample_dbkv t = [t]"
  "MakePrefixKey sample_dbkv L d s start len = 2 # of_nat d # map of_nat (take len (drop start s))"
  "MakeCountKey sample_dbkv L s start len = 3 # map of_nat (take len (drop start s))"
  "MakeDomainDeletionKey sample_dbkv d = [4, of_nat d]"
  "GetKeyTypeFromKey sample_dbkv k L = (case k of [] \<Rightarrow> 255 | t # r \<Rightarrow> t)"
  "GetDomainFromKey sample_dbkv k L = (case k of t # d # r \<Rightarrow> unat d | _ \<Rightarrow> 0)"
  "GetWordsFromKey sample_dbkv k L =
     (case k of [] \<Rightarrow> [] | t # r \<Rightarrow> map unat (if t = 2 then drop 1 r else r))"
  "SerializeCount sample_dbkv = be64"
  "DeserializeCount sample_dbkv = un64"
  "SerializeStreams sample_dbkv ss = concat (map be64 ss)"
  "DeserializeStreams sample_dbkv bs = map un64 (records 8 (length bs div 8) bs)"
  "kPostingSize sample_dbkv = 10"
  "EncodePosting sample_dbkv (d, loc, st) = of_nat d # be64 loc @ [of_nat st]"
  "DecodePosting sample_dbkv bs = (unat (hd bs), un64 (take 8 (drop 1 bs)), unat (last bs))"
  "to_length_t sample_dbkv n = n mod 65536"
  by (simp_all add: sample_dbkv_def)

lemma sample_storage_sel:
  "Append sample_storage st d s t a = Inr (of_nat st, st + length s + length t)"
  "Flush sample_storage st = Inr st"
  "GetManifest_Serialize sample_storage st = be64 (of_nat st)"
  by (simp_all add: sample_storage_def)

lemma sample_index_sel:
  "openForBulkLoad sample_index = False"
  "prefixLength sample_index = 3"
  "db sample_index = []"
  "streams sample_index = [0]"
  "storage sample_index = 0"
  by (simp_all add: sample_index_def)

lemma sample_batch_sel:
  "data sample_batch = [sample_entry]"
  "deletions sample_batch = []"
  "GetStreams sample_batch = [7]"
  by (simp_all add: sample_batch_def)

lemma sample_entry_sel:
  "domain sample_entry = 1"
  "source sample_entry = [5, 9, 12]"
  "target sample_entry = [20, 21]"
  "alignment sample_entry = [(0, 0)]"
  by (simp_all add: sample_entry_def)

lemma be64_values:
  "be64 0 = [0, 0, 0, 0, 0, 0, 0, 0]"
  "be64 1 = [0, 0, 0, 0, 0, 0, 0, 1]"
  "be64 2 = [0, 0, 0, 0, 0, 0, 0, 2]"
  "be64 3 = [0, 0, 0, 0, 0, 0, 0, 3]"
  "be64 5 = [0, 0, 0, 0, 0, 0, 0, 5]"
  "be64 6 = [0, 0, 0, 0, 0, 0, 0, 6]"
  "be64 7 = [0, 0, 0, 0, 0, 0, 0, 7]"
  by (simp_all add: be64_def)

lemma sample_environment_sel:
  "is_directory sample_environment p = (p = ''/model'' \<or> p = ''/locked'')"
  "path_append sample_environment p q = p @ ''/'' @ q"
  "absolute sample_environment p = p"
  "hardware_concurrency sample_environment = 4"
  "DB_Open sample_environment options p =
     (if p = ''/locked/index'' then Inl ''IO error: lock'' else Inr [])"
  "CorporaStorage_new sample_environment p raw_manifest = Inr 0"
  by (simp_all add: sample_environment_def)

lemma sample_PutBatch_entries:
  "PutBatch_entries sample_dbkv sample_storage 3 (data sample_batch) (0, [], []) =
    Inr (5,
      [([2, 1, 5], [(1, 0, 0)]), ([2, 1, 5, 9], [(1, 0, 0)]), ([2, 1, 5, 9, 12], [(1, 0, 0)]),
       ([2, 1, 9], [(1, 0, 1)]), ([2, 1, 9, 12], [(1, 0, 1)]), ([2, 1, 12], [(1, 0, 2)])],
      [([3, 20], 1), ([3, 20, 21], 1), ([3, 21], 1)])"
  by (simp add: sample_batch_sel sample_entry_sel sample_storage_sel sample_dbkv_sel
      AddPrefixesToBatch_def
      AddTargetCountsToBatch_def PostingList_Append_def
      AddPrefixesToBatch_lengths.simps AddPrefixesToBatch_starts.simps
      AddTargetCountsToBatch_lengths.simps AddTargetCountsToBatch_starts.simps)


lemma sample_PutBatch_writeBatch:
  "PutBatch_writeBatch sample_dbkv sample_storage sample_index sample_batch =
    Inr (sample_writeBatch, 5)"
  apply (simp only: PutBatch_writeBatch_def sample_index_sel sample_PutBatch_entries)
  apply (simp add: PostingList_Serialize_def kStreamsKey_def kStorageManifestKey_def
      sample_dbkv_sel sample_storage_sel sample_batch_sel be64_values sample_writeBatch_def)
  done

subsection \<open>CountOccurrences\<close>

lemma max_int64_ge1: "Suc 0 \<le> unat (max_int64 c 1)"
proof (cases "sint c < sint (1 :: int64_t)")
  case True
  then show ?thesis by (simp add: max_int64_def)
next
  case False
  then have "c \<noteq> 0" by auto
  then have "unat c \<noteq> 0" by (simp add: unat_eq_0)
  with False show ?thesis by (simp add: max_int64_def)
qed

text \<open>
  C4. For a phrase of length at most the prefix length, \<open>CountOccurrences\<close> returns at
  least 1, on the source side and on the target side, whatever the engine holds for the
  phrase (no record under the cursor, no count under the key).
\<close>

theorem CountOccurrences_floor:
  "length phrase \<le> unat (prefixLength sa) \<Longrightarrow>
     1 \<le> fst (CountOccurrences kv eng sa isSource phrase)"
  by (simp add: CountOccurrences_def Let_def max_int64_ge1)

theorem CountOccurrences_floor_witness:
  "length [5, 9 :: wid_t] \<le> unat (prefixLength sample_index)
   \<and> 1 \<le> fst (CountOccurrences sample_dbkv sample_engine sample_index True [5, 9])
   \<and> 1 \<le> fst (CountOccurrences sample_dbkv sample_engine sample_index False [5, 9])"
  using CountOccurrences_floor [of "[5, 9]" sample_index sample_dbkv sample_engine True]
    CountOccurrences_floor [of "[5, 9]" sample_index sample_dbkv sample_engine False]
  by (simp add: sample_index_def)

text \<open>
  C5. A phrase longer than the configured prefix length is counted as 1, on the source
  side and on the target side, whatever the index holds.
\<close>

theorem CountOccurrences_long_phrase:
  "length phrase > unat (prefixLength sa) \<Longrightarrow>
     fst (CountOccurrences kv eng sa isSource phrase) = 1"
  by (simp add: CountOccurrences_def)

theorem CountOccurrences_long_phrase_witness:
  "length [5, 9, 12, 7 :: wid_t] > unat (prefixLength sample_index)
   \<and> fst (CountOccurrences sample_dbkv sample_engine sample_index True [5, 9, 12, 7]) = 1
   \<and> fst (CountOccurrences sample_dbkv sample_engine sample_index False [5, 9, 12, 7]) = 1"
  using CountOccurrences_long_phrase [of sample_index "[5, 9, 12, 7]" sample_dbkv sample_engine True]
    CountOccurrences_long_phrase [of sample_index "[5, 9, 12, 7]" sample_dbkv sample_engine False]
  by (simp add: sample_index_def)

subsection \<open>The merge operator\<close>

text \<open>
  C2. The leading tag of the key fixes what \<open>Merge\<close> does. On a source-prefix key the new
  value is the existing value (empty when absent) followed by the incoming one. On a
  target-count key it is the serialized sum of the decoded counts, an absent existing
  value counting as zero. On any other tag the operator declines. The two tags are
  labels of one \<^verbatim>\<open>switch\<close>, hence different.
\<close>

theorem Merge_by_key_type:
  "(tag = kSourcePrefixKeyType kv \<longrightarrow>
      Merge kv (tag # rest) existing_value val =
        Some (Merged ((case existing_value of None \<Rightarrow> [] | Some e \<Rightarrow> e) @ val)))
   \<and> (tag = kTargetCountKeyType kv \<and> kTargetCountKeyType kv \<noteq> kSourcePrefixKeyType kv \<longrightarrow>
      Merge kv (tag # rest) existing_value val =
        Some (Merged (SerializeCount kv
          ((case existing_value of None \<Rightarrow> 0 | Some e \<Rightarrow> DeserializeCount kv e)
             + DeserializeCount kv val))))
   \<and> (tag \<noteq> kSourcePrefixKeyType kv \<and> tag \<noteq> kTargetCountKeyType kv \<longrightarrow>
      Merge kv (tag # rest) existing_value val = Some NotApplicable)"
  by (simp add: Merge_def MergePositionLists_def MergeCounts_def Let_def add.commute
      split: option.split)

theorem Merge_by_key_type_witness:
  "Merge sample_dbkv [2, 1, 5] (Some [1, 2]) [3, 4] = Some (Merged [1, 2, 3, 4])
   \<and> Merge sample_dbkv [2, 1, 5] None [3, 4] = Some (Merged [3, 4])
   \<and> Merge sample_dbkv [3, 20] (Some (be64 2)) (be64 3) = Some (Merged (be64 5))
   \<and> Merge sample_dbkv [3, 20] None (be64 3) = Some (Merged (be64 3))
   \<and> Merge sample_dbkv [0] (Some [1]) [2] = Some NotApplicable"
  using Merge_by_key_type [of 2 sample_dbkv "[1, 5]" "Some [1, 2]" "[3, 4]"]
    Merge_by_key_type [of 2 sample_dbkv "[1, 5]" None "[3, 4]"]
    Merge_by_key_type [of 3 sample_dbkv "[20]" "Some (be64 2)" "be64 3"]
    Merge_by_key_type [of 3 sample_dbkv "[20]" None "be64 3"]
    Merge_by_key_type [of 0 sample_dbkv "[]" "Some [1]" "[2]"]
  by (simp add: sample_dbkv_def be64_def un64_def)

lemma records_append:
  "length a = n * w \<Longrightarrow> records w (n + m) (a @ b) = records w n a @ records w m b"
proof (induction n arbitrary: a)
  case 0
  then show ?case by simp
next
  case (Suc n)
  then have "length (drop w a) = n * w" by simp
  from Suc.IH [OF this] Suc.prems show ?case by simp
qed

lemma Deserialize_append:
  assumes "fragment kv a"
  shows "PostingList_Deserialize kv (a @ b) =
         PostingList_Deserialize kv a @ PostingList_Deserialize kv b"
proof (cases "kPostingSize kv = 0")
  case True
  then show ?thesis by (simp add: PostingList_Deserialize_def)
next
  case False
  define w where "w = kPostingSize kv"
  define n where "n = length a div w"
  have a: "length a = n * w"
    using assms by (auto simp: fragment_def w_def n_def)
  have "(length a + length b) div w = n + length b div w"
    using False by (simp add: a w_def)
  then show ?thesis
    using records_append [OF a, of "length b div w" b]
    by (simp add: PostingList_Deserialize_def w_def [symmetric] n_def [symmetric])
qed

lemma merge_pair_source:
  "merge_pair kv (kSourcePrefixKeyType kv # rest) x y = Some (x @ y)"
  by (simp add: merge_pair_def merged_def Merge_def MergePositionLists_def)

lemma merge_pair_count:
  "kTargetCountKeyType kv \<noteq> kSourcePrefixKeyType kv \<Longrightarrow>
   merge_pair kv (kTargetCountKeyType kv # rest) x y =
     Some (SerializeCount kv (DeserializeCount kv y + DeserializeCount kv x))"
  by (simp add: merge_pair_def merged_def Merge_def MergeCounts_def)

lemma mset_three:
  assumes "mset [X, Y, Z] = mset [A, B, C]"
  shows "g X + g Y + g Z = (g A + g B + g C :: 'a multiset)"
proof -
  have "sum_mset (image_mset g (mset [X, Y, Z])) = sum_mset (image_mset g (mset [A, B, C]))"
    using assms by simp
  then show ?thesis by (simp add: ac_simps)
qed

text \<open>
  C3. Merging is associative and commutative up to what the values denote. For three
  posting-list fragments taken in any order \<open>X\<close>, \<open>Y\<close>, \<open>Z\<close>, both groupings of the pairwise
  merges give the same bytes, and these decode to the multiset of the postings of the
  three fragments. For three counts both groupings give the serialized \<open>a + b + c\<close> (in
  64-bit arithmetic), and merging two counts gives the same value in either order.
\<close>

theorem Merge_associative_commutative:
  assumes "fragment kv A" and "fragment kv B" and "fragment kv C"
    and "mset [X, Y, Z] = mset [A, B, C]"
    and "kTargetCountKeyType kv \<noteq> kSourcePrefixKeyType kv"
    and "count_roundtrip kv a" and "count_roundtrip kv b" and "count_roundtrip kv c"
    and "count_roundtrip kv (a + b)" and "count_roundtrip kv (b + c)"
  shows "(\<exists>v. merge_left kv (kSourcePrefixKeyType kv # rest) X Y Z = Some v
            \<and> merge_right kv (kSourcePrefixKeyType kv # rest) X Y Z = Some v
            \<and> mset (PostingList_Deserialize kv v) =
                mset (PostingList_Deserialize kv A) + mset (PostingList_Deserialize kv B)
                  + mset (PostingList_Deserialize kv C))
       \<and> merge_left kv (kTargetCountKeyType kv # rest')
            (SerializeCount kv a) (SerializeCount kv b) (SerializeCount kv c) =
           Some (SerializeCount kv (a + b + c))
       \<and> merge_right kv (kTargetCountKeyType kv # rest')
            (SerializeCount kv a) (SerializeCount kv b) (SerializeCount kv c) =
           Some (SerializeCount kv (a + b + c))
       \<and> merge_pair kv (kTargetCountKeyType kv # rest') (SerializeCount kv a) (SerializeCount kv b) =
           merge_pair kv (kTargetCountKeyType kv # rest') (SerializeCount kv b) (SerializeCount kv a)"
proof -
  have "set_mset (mset [X, Y, Z]) = set_mset (mset [A, B, C])"
    using assms(4) by (rule arg_cong)
  then have "{X, Y, Z} = {A, B, C}" by simp
  with assms(1-3) have f: "fragment kv X" "fragment kv Y" "fragment kv Z" by auto
  have l: "merge_left kv (kSourcePrefixKeyType kv # rest) X Y Z = Some (X @ Y @ Z)"
    by (simp add: merge_left_def merge_pair_source)
  have r: "merge_right kv (kSourcePrefixKeyType kv # rest) X Y Z = Some (X @ Y @ Z)"
    by (simp add: merge_right_def merge_pair_source)
  have "mset (PostingList_Deserialize kv (X @ Y @ Z)) =
      mset (PostingList_Deserialize kv X) + mset (PostingList_Deserialize kv Y)
        + mset (PostingList_Deserialize kv Z)"
    using f by (simp add: Deserialize_append)
  also have "\<dots> = mset (PostingList_Deserialize kv A) + mset (PostingList_Deserialize kv B)
        + mset (PostingList_Deserialize kv C)"
    using assms(4) by (rule mset_three)
  finally have p: "mset (PostingList_Deserialize kv (X @ Y @ Z)) =
      mset (PostingList_Deserialize kv A) + mset (PostingList_Deserialize kv B)
        + mset (PostingList_Deserialize kv C)" .
  have rt: "DeserializeCount kv (SerializeCount kv a) = a"
    "DeserializeCount kv (SerializeCount kv b) = b"
    "DeserializeCount kv (SerializeCount kv c) = c"
    "DeserializeCount kv (SerializeCount kv (a + b)) = a + b"
    "DeserializeCount kv (SerializeCount kv (b + c)) = b + c"
    using assms(6-10) by (simp_all add: count_roundtrip_def)
  have cl: "merge_left kv (kTargetCountKeyType kv # rest')
            (SerializeCount kv a) (SerializeCount kv b) (SerializeCount kv c) =
           Some (SerializeCount kv (a + b + c))"
    using assms(5) rt by (simp add: merge_left_def merge_pair_count add.commute [of b a] ac_simps)
  have cr: "merge_right kv (kTargetCountKeyType kv # rest')
            (SerializeCount kv a) (SerializeCount kv b) (SerializeCount kv c) =
           Some (SerializeCount kv (a + b + c))"
    using assms(5) rt by (simp add: merge_right_def merge_pair_count add.commute [of c b] ac_simps)
  have cc: "merge_pair kv (kTargetCountKeyType kv # rest') (SerializeCount kv a) (SerializeCount kv b) =
           merge_pair kv (kTargetCountKeyType kv # rest') (SerializeCount kv b) (SerializeCount kv a)"
    using assms(5) by (simp add: merge_pair_count add.commute)
  from l r p cl cr cc show ?thesis by blast
qed


theorem Merge_associative_commutative_witness:
  "fragment sample_dbkv [1, 0, 0, 0, 0, 0, 0, 0, 0, 0]
   \<and> fragment sample_dbkv [1, 0, 0, 0, 0, 0, 0, 0, 0, 1]
   \<and> fragment sample_dbkv [1, 0, 0, 0, 0, 0, 0, 0, 0, 2]
   \<and> count_roundtrip sample_dbkv 1 \<and> count_roundtrip sample_dbkv 2
   \<and> count_roundtrip sample_dbkv 3 \<and> count_roundtrip sample_dbkv 5
   \<and> (\<exists>v. merge_left sample_dbkv [2, 1, 5]
              [1, 0, 0, 0, 0, 0, 0, 0, 0, 1] [1, 0, 0, 0, 0, 0, 0, 0, 0, 2]
              [1, 0, 0, 0, 0, 0, 0, 0, 0, 0] = Some v
          \<and> merge_right sample_dbkv [2, 1, 5]
              [1, 0, 0, 0, 0, 0, 0, 0, 0, 1] [1, 0, 0, 0, 0, 0, 0, 0, 0, 2]
              [1, 0, 0, 0, 0, 0, 0, 0, 0, 0] = Some v
          \<and> mset (PostingList_Deserialize sample_dbkv v) =
              mset (PostingList_Deserialize sample_dbkv [1, 0, 0, 0, 0, 0, 0, 0, 0, 0])
              + mset (PostingList_Deserialize sample_dbkv [1, 0, 0, 0, 0, 0, 0, 0, 0, 1])
              + mset (PostingList_Deserialize sample_dbkv [1, 0, 0, 0, 0, 0, 0, 0, 0, 2]))
   \<and> merge_left sample_dbkv [3, 20] (be64 1) (be64 2) (be64 3) = Some (be64 6)
   \<and> merge_right sample_dbkv [3, 20] (be64 1) (be64 2) (be64 3) = Some (be64 6)
   \<and> merge_pair sample_dbkv [3, 20] (be64 1) (be64 2) =
       merge_pair sample_dbkv [3, 20] (be64 2) (be64 1)"
proof -
  have f: "fragment sample_dbkv [1, 0, 0, 0, 0, 0, 0, 0, 0, 0]"
    "fragment sample_dbkv [1, 0, 0, 0, 0, 0, 0, 0, 0, 1]"
    "fragment sample_dbkv [1, 0, 0, 0, 0, 0, 0, 0, 0, 2]"
    by (simp_all add: fragment_def sample_dbkv_sel)
  have p: "mset [[1, 0, 0, 0, 0, 0, 0, 0, 0, 1], [1, 0, 0, 0, 0, 0, 0, 0, 0, 2],
                 [1, 0, 0, 0, 0, 0, 0, 0, 0, 0]] =
           mset [[1, 0, 0, 0, 0, 0, 0, 0, 0, 0], [1, 0, 0, 0, 0, 0, 0, 0, 0, 1],
                 [1, 0, 0, 0, 0, 0, 0, 0, 0, 2 :: byte]]"
    by (simp add: add_mset_commute)
  have t: "kTargetCountKeyType sample_dbkv \<noteq> kSourcePrefixKeyType sample_dbkv"
    by (simp add: sample_dbkv_sel)
  have r: "count_roundtrip sample_dbkv 1" "count_roundtrip sample_dbkv 2"
    "count_roundtrip sample_dbkv 3" "count_roundtrip sample_dbkv 5"
    by (simp_all add: count_roundtrip_def sample_dbkv_sel be64_values un64_def)
  have r3: "count_roundtrip sample_dbkv (1 + 2)" and r5: "count_roundtrip sample_dbkv (2 + 3)"
    using r(3,4) by simp_all
  from Merge_associative_commutative [OF f p t r(1) r(2) r(3) r3 r5, of "[1, 5]" "[20]"] f r
  show ?thesis
    by (simp add: sample_dbkv_sel)
qed

subsection \<open>PutBatch and the stream state\<close>

lemma PutBatch_writeBatch_streams:
  "PutBatch_writeBatch kv cs sa batch = Inr (writeBatch, st) \<Longrightarrow>
     WB_Put (kStreamsKey kv) (SerializeStreams kv (streams sa)) \<in> set writeBatch"
  by (auto simp: PutBatch_writeBatch_def Let_def split: sum.splits prod.splits if_splits)

lemma PutBatch_streams_after:
  "PutBatch kv cs eng sa batch = Inr sa' \<Longrightarrow> streams sa' = GetStreams batch"
  by (auto simp: PutBatch_def split: sum.splits prod.splits Status.splits)

text \<open>
  C1. The claim asks that the value put under the streams key be the serialization of
  the batch's new stream state. \<open>PutBatch\<close> serializes the member \<open>streams\<close> before it
  assigns \<open>batch.GetStreams()\<close> to it: on the index with stream state \<open>[0]\<close> and a batch
  whose new stream state is \<open>[7]\<close>, the one value put under the streams key is the
  serialization of \<open>[0]\<close>, while the index in memory ends with \<open>[7]\<close>.
\<close>

theorem PutBatch_writes_previous_streams:
  "(case PutBatch_writeBatch sample_dbkv sample_storage sample_index sample_batch of
      Inl ex \<Rightarrow> []
    | Inr (writeBatch, st) \<Rightarrow> puts_under (kStreamsKey sample_dbkv) writeBatch)
     = [SerializeStreams sample_dbkv (streams sample_index)]
   \<and> streams_after (PutBatch sample_dbkv sample_storage sample_engine sample_index sample_batch)
     = Some (GetStreams sample_batch)
   \<and> SerializeStreams sample_dbkv (streams sample_index) = [0, 0, 0, 0, 0, 0, 0, 0]
   \<and> SerializeStreams sample_dbkv (GetStreams sample_batch) = [0, 0, 0, 0, 0, 0, 0, 7]"
proof -
  have a: "kStreamsKey sample_dbkv = [0]"
    by (simp add: kStreamsKey_def sample_dbkv_sel)
  have b: "SerializeStreams sample_dbkv (streams sample_index) = [0, 0, 0, 0, 0, 0, 0, 0]"
    by (simp add: sample_dbkv_sel sample_index_sel be64_values)
  have c: "SerializeStreams sample_dbkv (GetStreams sample_batch) = [0, 0, 0, 0, 0, 0, 0, 7]"
    by (simp add: sample_dbkv_sel sample_batch_sel be64_values)
  have "fst (DB_Write sample_engine d w) = OK" for d w
    by (simp add: sample_engine_def)
  then obtain d' where "DB_Write sample_engine (db sample_index)
      (fst (projr (PutBatch_writeBatch sample_dbkv sample_storage sample_index sample_batch))) = (OK, d')"
    by (metis prod.collapse)
  then have d: "streams_after (PutBatch sample_dbkv sample_storage sample_engine sample_index sample_batch)
     = Some (GetStreams sample_batch)"
    by (simp add: PutBatch_def sample_PutBatch_writeBatch streams_after_def)
  show ?thesis
    by (simp add: sample_PutBatch_writeBatch sample_writeBatch_def a b c d)
qed

subsection \<open>The constructor\<close>

lemma SuffixArray_body_not_directory:
  "\<not> is_directory env modelPath \<Longrightarrow>
     SuffixArray_body kv eng env modelPath L gcBatchSize prepareForBulkLoad =
       Inl (invalid_argument (''Invalid model path: '' @ modelPath))"
  by (simp add: SuffixArray_body_def)

lemma SuffixArray_new_not_directory:
  "\<not> is_directory env modelPath \<Longrightarrow>
     SuffixArray_new kv eng env modelPath L gcBatchSize prepareForBulkLoad =
       Aborts (invalid_argument (''Invalid model path: '' @ modelPath))"
  by (simp add: SuffixArray_new_def SuffixArray_body_not_directory exception_specification_def)

lemma SuffixArray_new_open_fails:
  "is_directory env modelPath \<Longrightarrow>
   DB_Open env (make_options prepareForBulkLoad (hardware_concurrency env))
     (absolute env (path_append env modelPath ''index'')) = Inl status \<Longrightarrow>
     SuffixArray_new kv eng env modelPath L gcBatchSize prepareForBulkLoad =
       Throws (index_exception status)"
  by (simp add: SuffixArray_new_def SuffixArray_body_def exception_specification_def Let_def)

lemma SuffixArray_new_never_throws_invalid_argument:
  "SuffixArray_new kv eng env modelPath L gcBatchSize prepareForBulkLoad \<noteq>
     Throws (invalid_argument m)"
  by (auto simp: SuffixArray_new_def exception_specification_def split: sum.splits if_splits)

text \<open>
  C8. The claim asks for an index error when the model path is not a directory. The
  first check of the constructor throws \<^verbatim>\<open>std::invalid_argument\<close> instead, which the
  exception specification of the constructor does not list: no error of any kind
  reaches the caller, the process aborts. On the path \<open>/nowhere\<close>, which is not a
  directory, the constructor aborts with the invalid-argument exception pending. On the
  directory \<open>/locked\<close>, whose key-value store cannot be opened, it throws an index error:
  the neighbouring failure of the constructor does what the claim asks of this one.
\<close>

theorem SuffixArray_new_aborts_on_missing_directory:
  "SuffixArray_new sample_dbkv sample_engine sample_environment ''/nowhere'' 3 100 False =
     Aborts (invalid_argument ''Invalid model path: /nowhere'')
   \<and> SuffixArray_new sample_dbkv sample_engine sample_environment ''/locked'' 3 100 False =
     Throws (index_exception ''IO error: lock'')"
  by (simp add: SuffixArray_new_not_directory SuffixArray_new_open_fails sample_environment_sel)

subsection \<open>IndexIterator::Next\<close>

lemma Next_at_end: "Next kv L End outEntry = (Inr False, End, outEntry)"
  by simp

lemma Next_source_record:
  assumes "GetKeyTypeFromKey kv key L = kSourcePrefixKeyType kv" and "\<forall>m. rest \<noteq> Fault m"
  shows "Next kv L (Rec key val rest) outEntry =
    (Inr True, rest,
     outEntry\<lparr>is_source := True,
              entry_domain := GetDomainFromKey kv key L,
              words := GetWordsFromKey kv key L,
              positions := PostingList_Deserialize kv val,
              entry_count := of_nat (length (PostingList_Deserialize kv val))\<rparr>)"
  using assms by (cases rest) (simp_all add: Let_def)

lemma Next_target_record:
  assumes "GetKeyTypeFromKey kv key L = kTargetCountKeyType kv"
    and "kTargetCountKeyType kv \<noteq> kSourcePrefixKeyType kv" and "\<forall>m. rest \<noteq> Fault m"
  shows "Next kv L (Rec key val rest) outEntry =
    (Inr True, rest,
     outEntry\<lparr>is_source := False,
              entry_domain := 0,
              positions := [],
              words := GetWordsFromKey kv key L,
              entry_count := DeserializeCount kv val\<rparr>)"
  using assms by (cases rest) (simp_all add: Let_def)

lemma Next_skips_record:
  assumes "GetKeyTypeFromKey kv key L \<noteq> kSourcePrefixKeyType kv"
    and "GetKeyTypeFromKey kv key L \<noteq> kTargetCountKeyType kv" and "\<forall>m. rest \<noteq> Fault m"
  shows "Next kv L (Rec key val rest) outEntry = Next kv L rest outEntry"
  using assms by (cases rest) (simp_all add: Let_def)

lemma Next_fault_after_record:
  "fst (Next kv L (Rec key val (Fault msg)) outEntry) = Inl (index_exception msg)"
  by (simp add: Let_def split: prod.split)

text \<open>
  C7. The lemmas above are the parts of the claim that the code meets: a record with an
  unrecognized tag is skipped and the scan goes on, a source-prefix record and a
  target-count record are reported as the claim says, a fault that the engine reports
  after a record raises an index error, and an exhausted scan returns \<^verbatim>\<open>false\<close>. The
  claim also asks that a fault of the engine always surface as an index error. \<open>Next\<close>
  reads \<^verbatim>\<open>it->status()\<close> only inside the loop, after \<^verbatim>\<open>it->Next()\<close>: when the iterator is
  already faulted on entry (\<^verbatim>\<open>SeekToFirst\<close> failed, so \<^verbatim>\<open>Valid()\<close> is false and the status is
  not ok), the loop is not entered and the call returns \<^verbatim>\<open>false\<close>, as on a clean end.
\<close>

theorem Next_on_faulted_scan:
  "Next kv L (Fault msg) outEntry = (Inr False, Fault msg, outEntry)"
  by simp

text \<open>
  The iterator only moves forward: the one that \<open>Next\<close> leaves is a tail of the one it was
  given.
\<close>

lemma scan_suffix_refl: "scan_suffix s s"
  by (cases s) simp_all

lemma scan_suffix_Rec: "scan_suffix s rest \<Longrightarrow> scan_suffix s (Rec key val rest)"
  by simp

lemma Next_scan_suffix: "scan_suffix (fst (snd (Next kv L it outEntry))) it"
proof (induction kv L it outEntry rule: Next.induct)
  case (1 kv L outEntry)
  then show ?case by simp
next
  case (2 kv L msg outEntry)
  then show ?case by simp
next
  case (3 kv L key val rest outEntry)
  show ?case
  proof (cases rest)
    case End
    then show ?thesis by (simp add: Let_def split: prod.split)
  next
    case (Fault m)
    then show ?thesis by (simp add: Let_def split: prod.split)
  next
    case (Rec k v r)
    then show ?thesis
      using 3 by (auto simp: Let_def scan_suffix_refl split: prod.split if_splits)
  qed
qed

subsection \<open>The map of a batch\<close>

lemma value_at_unordered_map_at:
  "value_at d (unordered_map_at key d f m) k =
     (if k = key then f (value_at d m key) else value_at d m k)"
  by (induction m) (auto simp: value_at_def)

lemma map_fst_unordered_map_at:
  "map fst (unordered_map_at key d f m) =
     (if key \<in> set (map fst m) then map fst m else map fst m @ [key])"
  by (induction m) force+

lemma keys_unordered_map_at:
  "fst ` set (unordered_map_at key d f m) = insert key (fst ` set m)"
proof -
  have "set (map fst (unordered_map_at key d f m)) = insert key (set (map fst m))"
    by (simp only: map_fst_unordered_map_at) auto
  then show ?thesis by simp
qed

lemma distinct_unordered_map_at:
  "distinct (map fst m) \<Longrightarrow> distinct (map fst (unordered_map_at key d f m))"
  by (simp only: map_fst_unordered_map_at) auto

lemma value_at_add_postings:
  "value_at [] (foldl add_posting m occ) key = value_at [] m key @ postings_under key occ"
  by (induction occ arbitrary: m)
    (auto simp: postings_under_def add_posting_def value_at_unordered_map_at)

lemma keys_add_postings:
  "fst ` set (foldl add_posting m occ) = fst ` set m \<union> fst ` set occ"
  by (induction occ arbitrary: m) (auto simp: add_posting_def keys_unordered_map_at)

lemma distinct_add_postings:
  "distinct (map fst m) \<Longrightarrow> distinct (map fst (foldl add_posting m occ))"
  by (induction occ arbitrary: m) (auto simp: add_posting_def distinct_unordered_map_at)

lemma value_at_add_counts:
  "value_at 0 (foldl add_count m occ) key = value_at 0 m key + of_nat (count_under key occ)"
  by (induction occ arbitrary: m)
    (auto simp: count_under_def add_count_def value_at_unordered_map_at)

lemma keys_add_counts:
  "fst ` set (foldl add_count m occ) = fst ` set m \<union> set occ"
  by (induction occ arbitrary: m) (auto simp: add_count_def keys_unordered_map_at)

lemma distinct_add_counts:
  "distinct (map fst m) \<Longrightarrow> distinct (map fst (foldl add_count m occ))"
  by (induction occ arbitrary: m) (auto simp: add_count_def distinct_unordered_map_at)

lemma value_at_Nil: "value_at d [] key = d"
  by (simp add: value_at_def)

lemma value_at_Cons_other: "k \<noteq> key \<Longrightarrow> value_at d ((k, v) # m) key = value_at d m key"
  by (simp add: value_at_def)

lemma distinct_keys_values:
  "distinct (map fst m) \<Longrightarrow> m = map (\<lambda>key. (key, value_at d m key)) (map fst m)"
proof (induction m)
  case Nil
  then show ?case by simp
next
  case (Cons p m)
  obtain k v where p: "p = (k, v)" by (cases p)
  have "map (\<lambda>key. (key, value_at d (p # m) key)) (map fst m) =
        map (\<lambda>key. (key, value_at d m key)) (map fst m)"
  proof (rule map_cong [OF refl])
    fix key
    assume "key \<in> set (map fst m)"
    with Cons.prems have "k \<noteq> key" by (auto simp: p)
    then show "(key, value_at d (p # m) key) = (key, value_at d m key)"
      by (simp add: p value_at_Cons_other)
  qed
  note tl = this
  have hd: "value_at d (p # m) k = v"
    by (simp add: p value_at_def)
  have IH: "m = map (\<lambda>key. (key, value_at d m key)) (map fst m)"
    using Cons by simp
  have "map (\<lambda>key. (key, value_at d (p # m) key)) (map fst (p # m)) =
      (k, v) # map (\<lambda>key. (key, value_at d (p # m) key)) (map fst m)"
    by (simp only: list.map p fst_conv hd [unfolded p])
  also have "\<dots> = (k, v) # map (\<lambda>key. (key, value_at d m key)) (map fst m)"
    by (simp only: tl)
  also have "\<dots> = (k, v) # m"
    by (rule arg_cong [OF IH [symmetric]])
  finally show ?case by (simp only: p)
qed

subsection \<open>The prefix loops as folds over the positions\<close>

lemma add_posting_step:
  "unordered_map_at key [] (\<lambda>pl. PostingList_Append pl d location st) m =
     add_posting m (key, (d, location, st))"
  by (simp add: add_posting_def PostingList_Append_def)

lemma add_count_step: "unordered_map_at key 0 (\<lambda>c. c + 1) m = add_count m key"
  by (simp add: add_count_def)

lemma upt_loop_step:
  "len \<le> L \<Longrightarrow> start + len \<le> n \<Longrightarrow>
     [len ..< Suc (min L (n - start))] = len # [Suc len ..< Suc (min L (n - start))]"
  by (subst upt_conv_Cons) (auto simp del: upt_Suc)

lemma upt_loop_stop:
  "start \<le> n \<Longrightarrow> \<not> (len \<le> L \<and> start + len \<le> n) \<Longrightarrow>
     [len ..< Suc (min L (n - start))] = []"
  by auto

lemma AddPrefixesToBatch_lengths_fold:
  "start \<le> length sentence \<Longrightarrow>
   AddPrefixesToBatch_lengths kv L d sentence location start len m =
     foldl add_posting m
       (map (\<lambda>n. (MakePrefixKey kv L d sentence start n, (d, location, to_length_t kv start)))
          [len ..< Suc (min (unat L) (length sentence - start))])"
proof (induction kv L d sentence location start len m rule: AddPrefixesToBatch_lengths.induct)
  case (1 kv L d sentence location start len m)
  show ?case
  proof (cases "len \<le> unat L \<and> start + len \<le> length sentence")
    case True
    then show ?thesis
      using 1 upt_loop_step [of len "unat L" start "length sentence"]
      by (subst AddPrefixesToBatch_lengths.simps)
        (simp add: add_posting_step del: upt_Suc)
  next
    case False
    then show ?thesis
      using 1(2) upt_loop_stop [of start "length sentence" len "unat L"]
      by (subst AddPrefixesToBatch_lengths.simps) (auto simp del: upt_Suc)
  qed
qed

lemma AddPrefixesToBatch_starts_fold:
  "AddPrefixesToBatch_starts kv L d sentence location start m =
     foldl add_posting m
       (concat (map (\<lambda>i. map (\<lambda>n. (MakePrefixKey kv L d sentence i n, (d, location, to_length_t kv i)))
                      [1 ..< Suc (min (unat L) (length sentence - i))])
          [start ..< length sentence]))"
proof (induction kv L d sentence location start m rule: AddPrefixesToBatch_starts.induct)
  case (1 kv L d sentence location start m)
  show ?case
  proof (cases "start < length sentence")
    case True
    then show ?thesis
      using 1
      by (subst AddPrefixesToBatch_starts.simps)
        (simp add: upt_conv_Cons AddPrefixesToBatch_lengths_fold del: upt_Suc)
  next
    case False
    then show ?thesis
      by (subst AddPrefixesToBatch_starts.simps) simp
  qed
qed

lemma AddPrefixesToBatch_fold:
  "AddPrefixesToBatch kv L d sentence location m =
     foldl add_posting m (source_occurrences kv L d sentence location)"
  by (simp add: AddPrefixesToBatch_def AddPrefixesToBatch_starts_fold source_occurrences_def
      prefix_positions_def map_concat comp_def)

lemma AddTargetCountsToBatch_lengths_fold:
  "start \<le> length sentence \<Longrightarrow>
   AddTargetCountsToBatch_lengths kv L sentence start len m =
     foldl add_count m
       (map (\<lambda>n. MakeCountKey kv L sentence start n)
          [len ..< Suc (min (unat L) (length sentence - start))])"
proof (induction kv L sentence start len m rule: AddTargetCountsToBatch_lengths.induct)
  case (1 kv L sentence start len m)
  show ?case
  proof (cases "len \<le> unat L \<and> start + len \<le> length sentence")
    case True
    then show ?thesis
      using 1 upt_loop_step [of len "unat L" start "length sentence"]
      by (subst AddTargetCountsToBatch_lengths.simps)
        (simp add: add_count_step del: upt_Suc)
  next
    case False
    then show ?thesis
      using 1(2) upt_loop_stop [of start "length sentence" len "unat L"]
      by (subst AddTargetCountsToBatch_lengths.simps) (auto simp del: upt_Suc)
  qed
qed

lemma AddTargetCountsToBatch_starts_fold:
  "AddTargetCountsToBatch_starts kv L sentence start m =
     foldl add_count m
       (concat (map (\<lambda>i. map (\<lambda>n. MakeCountKey kv L sentence i n)
                      [1 ..< Suc (min (unat L) (length sentence - i))])
          [start ..< length sentence]))"
proof (induction kv L sentence start m rule: AddTargetCountsToBatch_starts.induct)
  case (1 kv L sentence start m)
  show ?case
  proof (cases "start < length sentence")
    case True
    then show ?thesis
      using 1
      by (subst AddTargetCountsToBatch_starts.simps)
        (simp add: upt_conv_Cons AddTargetCountsToBatch_lengths_fold del: upt_Suc)
  next
    case False
    then show ?thesis
      by (subst AddTargetCountsToBatch_starts.simps) simp
  qed
qed

lemma AddTargetCountsToBatch_fold:
  "AddTargetCountsToBatch kv L sentence m =
     foldl add_count m (target_occurrences kv L sentence)"
  by (simp add: AddTargetCountsToBatch_def AddTargetCountsToBatch_starts_fold
      target_occurrences_def prefix_positions_def map_concat comp_def)

lemma distinct_concat_map_Pair:
  "distinct xs \<Longrightarrow> (\<And>x. distinct (f x)) \<Longrightarrow>
     distinct (concat (map (\<lambda>x. map (Pair x) (f x)) xs))"
  by (induction xs) (auto simp: distinct_map inj_on_def)

lemma distinct_prefix_positions: "distinct (prefix_positions L n)"
  unfolding prefix_positions_def
  by (rule distinct_concat_map_Pair) simp_all

lemma set_prefix_positions:
  "set (prefix_positions L n) =
     {(start, len). start < n \<and> 1 \<le> len \<and> len \<le> L \<and> start + len \<le> n}"
  by (auto simp: prefix_positions_def image_iff simp del: upt_Suc)

lemma postings_under_source_occurrences:
  "postings_under key (source_occurrences kv L d sentence location) =
     map (\<lambda>p. (d, location, to_length_t kv (fst p)))
       (filter (\<lambda>p. MakePrefixKey kv L d sentence (fst p) (snd p) = key)
          (prefix_positions (unat L) (length sentence)))"
  by (simp add: postings_under_def source_occurrences_def filter_map comp_def)

lemma count_under_target_occurrences:
  "count_under key (target_occurrences kv L sentence) =
     length (filter (\<lambda>p. MakeCountKey kv L sentence (fst p) (snd p) = key)
          (prefix_positions (unat L) (length sentence)))"
  by (simp add: count_under_def target_occurrences_def filter_map comp_def)

lemma set_prefix_positions_min:
  "set (prefix_positions L n) = {(start, len). start < n \<and> 1 \<le> len \<and> len \<le> min L (n - start)}"
  by (auto simp: set_prefix_positions)

text \<open>
  C6. For an entry that \<^verbatim>\<open>PutBatch\<close> processes (the storage returning \<open>offset\<close> for it), the
  loop goes on with two maps in which, under every key, the posting list has grown by
  one posting \<open>(domain, offset, start)\<close> for each position \<open>(start, len)\<close> of the source
  sentence whose prefix key is that key, and the count has grown by the number of
  positions of the target sentence whose count key is that key. The positions of a
  sentence of \<open>n\<close> words are, each once, the pairs with \<open>start < n\<close> and
  \<open>1 \<le> len \<le> min L (n - start)\<close>. The start position is stored through the conversion
  to \<^verbatim>\<open>length_t\<close> that the source applies.
\<close>

theorem PutBatch_entry_accumulates:
  assumes "Append cs st (domain e) (source e) (target e) (alignment e) = Inr (offset, st')"
  shows "\<exists>sourcePrefixes' targetCounts'.
      PutBatch_entries kv cs L (e # es) (st, sourcePrefixes, targetCounts) =
        PutBatch_entries kv cs L es (st', sourcePrefixes', targetCounts')
    \<and> (\<forall>key. value_at [] sourcePrefixes' key =
          value_at [] sourcePrefixes key
          @ map (\<lambda>p. (domain e, offset, to_length_t kv (fst p)))
              (filter (\<lambda>p. MakePrefixKey kv L (domain e) (source e) (fst p) (snd p) = key)
                 (prefix_positions (unat L) (length (source e)))))
    \<and> (\<forall>key. value_at 0 targetCounts' key =
          value_at 0 targetCounts key
          + of_nat (length
              (filter (\<lambda>p. MakeCountKey kv L (target e) (fst p) (snd p) = key)
                 (prefix_positions (unat L) (length (target e))))))
    \<and> (\<forall>n. distinct (prefix_positions (unat L) n)
          \<and> set (prefix_positions (unat L) n) =
              {(start, len). start < n \<and> 1 \<le> len \<and> len \<le> min (unat L) (n - start)})"
proof -
  let ?sp = "AddPrefixesToBatch kv L (domain e) (source e) offset sourcePrefixes"
  let ?tc = "AddTargetCountsToBatch kv L (target e) targetCounts"
  have "PutBatch_entries kv cs L (e # es) (st, sourcePrefixes, targetCounts) =
        PutBatch_entries kv cs L es (st', ?sp, ?tc)"
    using assms by simp
  moreover have "\<forall>key. value_at [] ?sp key =
          value_at [] sourcePrefixes key
          @ map (\<lambda>p. (domain e, offset, to_length_t kv (fst p)))
              (filter (\<lambda>p. MakePrefixKey kv L (domain e) (source e) (fst p) (snd p) = key)
                 (prefix_positions (unat L) (length (source e))))"
    by (simp add: AddPrefixesToBatch_fold value_at_add_postings postings_under_source_occurrences)
  moreover have "\<forall>key. value_at 0 ?tc key =
          value_at 0 targetCounts key
          + of_nat (length
              (filter (\<lambda>p. MakeCountKey kv L (target e) (fst p) (snd p) = key)
                 (prefix_positions (unat L) (length (target e)))))"
    by (simp add: AddTargetCountsToBatch_fold value_at_add_counts count_under_target_occurrences)
  moreover have "\<forall>n. distinct (prefix_positions (unat L) n)
          \<and> set (prefix_positions (unat L) n) =
              {(start, len). start < n \<and> 1 \<le> len \<and> len \<le> min (unat L) (n - start)}"
    by (simp add: distinct_prefix_positions set_prefix_positions_min)
  ultimately show ?thesis by blast
qed

lemma sample_prefix_positions:
  "prefix_positions 3 (Suc (Suc (Suc 0))) = [(0, 1), (0, 2), (0, 3), (1, 1), (1, 2), (2, 1)]"
  "prefix_positions 3 (Suc (Suc 0)) = [(0, 1), (0, 2), (1, 1)]"
  by (simp_all add: prefix_positions_def upt_rec)

theorem PutBatch_entry_accumulates_witness:
  "Append sample_storage 0 (domain sample_entry) (source sample_entry) (target sample_entry)
     (alignment sample_entry) = Inr (0, 5)
   \<and> (\<exists>sourcePrefixes' targetCounts'.
        PutBatch_entries sample_dbkv sample_storage 3 [sample_entry] (0, [], []) =
          Inr (5, sourcePrefixes', targetCounts')
      \<and> value_at [] sourcePrefixes' [2, 1, 9] = [(1, 0, 1)]
      \<and> value_at [] sourcePrefixes' [2, 1, 9, 5] = []
      \<and> value_at 0 targetCounts' [3, 20, 21] = 1
      \<and> value_at 0 targetCounts' [3, 21, 20] = 0)"
proof -
  have h: "Append sample_storage 0 (domain sample_entry) (source sample_entry)
     (target sample_entry) (alignment sample_entry) = Inr (0, 5)"
    by (simp add: sample_storage_sel sample_entry_sel)
  from PutBatch_entry_accumulates [OF h, of sample_dbkv 3 "[]" "[]" "[]"]
  obtain sp tc where
    e: "PutBatch_entries sample_dbkv sample_storage 3 [sample_entry] (0, [], []) =
          PutBatch_entries sample_dbkv sample_storage 3 [] (5, sp, tc)"
    and s: "\<And>key. value_at [] sp key =
          value_at [] [] key
          @ map (\<lambda>p. (domain sample_entry, 0, to_length_t sample_dbkv (fst p)))
              (filter (\<lambda>p. MakePrefixKey sample_dbkv 3 (domain sample_entry)
                              (source sample_entry) (fst p) (snd p) = key)
                 (prefix_positions (unat (3 :: uint8_t)) (length (source sample_entry))))"
    and t: "\<And>key. value_at 0 tc key =
          value_at 0 [] key
          + of_nat (length
              (filter (\<lambda>p. MakeCountKey sample_dbkv 3 (target sample_entry) (fst p) (snd p) = key)
                 (prefix_positions (unat (3 :: uint8_t)) (length (target sample_entry)))))"
    by blast
  have "PutBatch_entries sample_dbkv sample_storage 3 [sample_entry] (0, [], []) = Inr (5, sp, tc)"
    using e by simp
  moreover have "value_at [] sp [2, 1, 9] = [(1, 0, 1)]" "value_at [] sp [2, 1, 9, 5] = []"
    by (simp_all add: s value_at_Nil sample_entry_sel sample_dbkv_sel sample_prefix_positions)
  moreover have "value_at 0 tc [3, 20, 21] = 1" "value_at 0 tc [3, 21, 20] = 0"
    by (simp_all add: t value_at_Nil sample_entry_sel sample_dbkv_sel sample_prefix_positions)
  ultimately show ?thesis
    using h by blast
qed

subsection \<open>The write batch\<close>

lemma PutBatch_entries_fold:
  "PutBatch_entries kv cs L es (st, sp, tc) =
     (case Append_all cs st es of
        Inl ex \<Rightarrow> Inl ex
      | Inr (offsets, st') \<Rightarrow>
          Inr (st',
               foldl add_posting sp (batch_source_occurrences kv L es offsets),
               foldl add_count tc (batch_target_occurrences kv L es)))"
proof (induction es arbitrary: st sp tc)
  case Nil
  then show ?case
    by (simp add: batch_source_occurrences_def batch_target_occurrences_def)
next
  case (Cons e es)
  show ?case
    by (simp add: Cons.IH AddPrefixesToBatch_fold AddTargetCountsToBatch_fold
        batch_source_occurrences_def batch_target_occurrences_def
        split: sum.splits prod.splits)
qed

lemma merges_append: "merges (xs @ ys) = merges xs @ merges ys"
  by (induction xs rule: merges.induct) simp_all

lemma merges_map_WB_Merge: "merges (map (\<lambda>x. WB_Merge (f x) (g x)) xs) = map (\<lambda>x. (f x, g x)) xs"
  by (induction xs) simp_all

lemma merges_map_WB_Put: "merges (map (\<lambda>x. WB_Put (f x) (g x)) xs) = []"
  by (induction xs) simp_all

text \<open>
  C9. When \<^verbatim>\<open>PutBatch\<close> reaches the commit, the \<^verbatim>\<open>Merge\<close> operations of its write batch are
  one per source-prefix key that has an occurrence in the batch, carrying the
  serialization of all postings of the batch under that key, followed by one per
  target-count key that has an occurrence, carrying the serialized number of its
  occurrences in the batch; no key is merged twice. Source-prefix keys and target-count
  keys are taken to differ, as their leading type tags make them.
\<close>

theorem PutBatch_one_merge_per_key:
  assumes "PutBatch_writeBatch kv cs sa batch = Inr (writeBatch, st')"
    and "\<forall>d s i n s' i' n'.
           MakePrefixKey kv (prefixLength sa) d s i n \<noteq> MakeCountKey kv (prefixLength sa) s' i' n'"
  shows "\<exists>offsets st'' source_keys count_keys.
      Append_all cs (storage sa) (data batch) = Inr (offsets, st'')
    \<and> merges writeBatch =
        map (\<lambda>key. (key, PostingList_Serialize kv
               (postings_under key
                  (batch_source_occurrences kv (prefixLength sa) (data batch) offsets))))
          source_keys
        @ map (\<lambda>key. (key, SerializeCount kv
                 (of_nat (count_under key
                    (batch_target_occurrences kv (prefixLength sa) (data batch))))))
            count_keys
    \<and> distinct (source_keys @ count_keys)
    \<and> set source_keys =
        fst ` set (batch_source_occurrences kv (prefixLength sa) (data batch) offsets)
    \<and> set count_keys = set (batch_target_occurrences kv (prefixLength sa) (data batch))"
proof -
  let ?L = "prefixLength sa"
  from assms(1) obtain offsets st'' where
    app: "Append_all cs (storage sa) (data batch) = Inr (offsets, st'')"
    by (auto simp: PutBatch_writeBatch_def PutBatch_entries_fold split: sum.splits)
  let ?occ = "batch_source_occurrences kv ?L (data batch) offsets"
  let ?tocc = "batch_target_occurrences kv ?L (data batch)"
  let ?sp = "foldl add_posting [] ?occ"
  let ?tc = "foldl add_count [] ?tocc"
  have ent: "PutBatch_entries kv cs ?L (data batch) (storage sa, [], []) = Inr (st'', ?sp, ?tc)"
    by (simp add: PutBatch_entries_fold app)
  have dsp: "distinct (map fst ?sp)" by (simp add: distinct_add_postings)
  have dtc: "distinct (map fst ?tc)" by (simp add: distinct_add_counts)
  have ksp: "set (map fst ?sp) = fst ` set ?occ" using keys_add_postings [of "[]" ?occ] by simp
  have ktc: "set (map fst ?tc) = set ?tocc" using keys_add_counts [of "[]" ?tocc] by simp
  have vsp: "value_at [] ?sp key = postings_under key ?occ" for key
    by (simp add: value_at_add_postings value_at_Nil)
  have vtc: "value_at 0 ?tc key = of_nat (count_under key ?tocc)" for key
    by (simp add: value_at_add_counts value_at_Nil)
  have sp: "?sp = map (\<lambda>key. (key, postings_under key ?occ)) (map fst ?sp)"
    using distinct_keys_values [OF dsp, of "[]"] by (simp add: vsp)
  have tc: "?tc = map (\<lambda>key. (key, of_nat (count_under key ?tocc))) (map fst ?tc)"
    using distinct_keys_values [OF dtc, of 0] by (simp add: vtc)
  have m: "merges writeBatch =
      map (\<lambda>p. (fst p, PostingList_Serialize kv (snd p))) ?sp
      @ map (\<lambda>p. (fst p, SerializeCount kv (snd p))) ?tc"
    using assms(1)
    by (auto simp: PutBatch_writeBatch_def ent Let_def merges_append merges_map_WB_Merge
        merges_map_WB_Put split: sum.splits if_splits)
  have m1: "map (\<lambda>p. (fst p, PostingList_Serialize kv (snd p))) ?sp =
      map (\<lambda>key. (key, PostingList_Serialize kv (postings_under key ?occ))) (map fst ?sp)"
    by (subst sp) (simp add: comp_def)
  have m2: "map (\<lambda>p. (fst p, SerializeCount kv (snd p))) ?tc =
      map (\<lambda>key. (key, SerializeCount kv (of_nat (count_under key ?tocc)))) (map fst ?tc)"
    by (subst tc) (simp add: comp_def)
  have disj: "set (map fst ?sp) \<inter> set (map fst ?tc) = {}"
  proof -
    have "fst ` set ?occ \<inter> set ?tocc = {}"
      using assms(2)
      by (auto simp: batch_source_occurrences_def batch_target_occurrences_def
          source_occurrences_def target_occurrences_def)
    then show ?thesis by (simp only: ksp ktc)
  qed
  have "distinct (map fst ?sp @ map fst ?tc)"
    using dsp dtc disj by simp
  with app m m1 m2 ksp ktc show ?thesis
    by (intro exI [of _ offsets] exI [of _ st''] exI [of _ "map fst ?sp"] exI [of _ "map fst ?tc"])
      simp
qed


theorem PutBatch_one_merge_per_key_witness:
  "PutBatch_writeBatch sample_dbkv sample_storage sample_index sample_batch =
     Inr (sample_writeBatch, 5)
   \<and> (\<forall>d s i n s' i' n'.
         MakePrefixKey sample_dbkv (prefixLength sample_index) d s i n \<noteq>
         MakeCountKey sample_dbkv (prefixLength sample_index) s' i' n')
   \<and> distinct (map fst (merges sample_writeBatch))
   \<and> (\<exists>offsets st'' source_keys count_keys.
        Append_all sample_storage (storage sample_index) (data sample_batch) = Inr (offsets, st'')
      \<and> merges sample_writeBatch =
          map (\<lambda>key. (key, PostingList_Serialize sample_dbkv
                 (postings_under key
                    (batch_source_occurrences sample_dbkv (prefixLength sample_index)
                       (data sample_batch) offsets))))
            source_keys
          @ map (\<lambda>key. (key, SerializeCount sample_dbkv
                   (of_nat (count_under key
                      (batch_target_occurrences sample_dbkv (prefixLength sample_index)
                         (data sample_batch))))))
              count_keys
      \<and> distinct (source_keys @ count_keys)
      \<and> set source_keys =
          fst ` set (batch_source_occurrences sample_dbkv (prefixLength sample_index)
                       (data sample_batch) offsets)
      \<and> set count_keys =
          set (batch_target_occurrences sample_dbkv (prefixLength sample_index)
                 (data sample_batch)))"
proof -
  have h1: "PutBatch_writeBatch sample_dbkv sample_storage sample_index sample_batch =
     Inr (sample_writeBatch, 5)"
    by (rule sample_PutBatch_writeBatch)
  have h2: "\<forall>d s i n s' i' n'.
         MakePrefixKey sample_dbkv (prefixLength sample_index) d s i n \<noteq>
         MakeCountKey sample_dbkv (prefixLength sample_index) s' i' n'"
    by (simp add: sample_dbkv_sel)
  have h3: "distinct (map fst (merges sample_writeBatch))"
    by (simp add: sample_writeBatch_def)
  from PutBatch_one_merge_per_key [OF h1 h2] h1 h2 h3 show ?thesis
    by blast
qed


end
